theory Spec2Isabelle
  imports Main "HOL-Library.Word"
begin

section \<open>Data model of hyperdrive.go\<close>

text \<open>
  Go's \<^verbatim>\<open>int\<close> is a 64-bit signed machine integer on the platforms the package is built
  for; it is a 64-bit word read through \<open>sint\<close>. A Go slice is either \<^verbatim>\<open>nil\<close> or a
  sequence: \<open>None\<close> is the nil slice, \<open>Some xs\<close> a slice holding \<open>xs\<close>, so that the
  literal \<^verbatim>\<open>[]HyperdriveConfig{}\<close> is \<open>Some []\<close>. A \<^verbatim>\<open>*bool\<close> is a \<open>bool option\<close>,
  \<open>None\<close> being the nil pointer. \<^verbatim>\<open>[]byte\<close> and \<^verbatim>\<open>string\<close> are byte sequences.
\<close>

type_synonym go_int = "64 word"
type_synonym 'a slice = "'a list option"
type_synonym bytes = string

record HyperdriveConfigOrigin =
  Database :: string
  Host :: string
  Port :: go_int
  Scheme :: string
  User :: string

record HyperdriveConfigCaching =
  Disabled :: "bool option"
  MaxAge :: go_int
  StaleWhileRevalidate :: go_int

record HyperdriveConfig =
  ID :: string
  Name :: string
  Origin :: HyperdriveConfigOrigin
  Caching :: HyperdriveConfigCaching

text \<open>
  The envelopes embed \<^verbatim>\<open>Response\<close>, a struct declared elsewhere in the package; its type
  is the parameter \<open>'r\<close>. Both envelopes name their fields \<^verbatim>\<open>Response\<close> and \<^verbatim>\<open>Result\<close>; the
  fields of \<^verbatim>\<open>HyperdriveConfigListResponse\<close> carry the prefix \<open>List\<close>.
\<close>

record 'r HyperdriveConfigListResponse =
  ListResponse :: 'r
  ListResult :: "HyperdriveConfig slice"

record 'r HyperdriveConfigResponse =
  Response :: 'r
  Result :: HyperdriveConfig

text \<open>
  The two parameter structs have fields of the same names as \<^verbatim>\<open>HyperdriveConfig\<close>; the
  fields of \<^verbatim>\<open>CreateHyperdriveConfigParams\<close> carry the prefix \<open>Create\<close>, those of
  \<^verbatim>\<open>UpdateHyperdriveConfigParams\<close> the prefix \<open>Update\<close>.
\<close>

record CreateHyperdriveConfigParams =
  CreateName :: string
  CreatePassword :: string
  CreateOrigin :: HyperdriveConfigOrigin
  CreateCaching :: HyperdriveConfigCaching

record UpdateHyperdriveConfigParams =
  HyperdriveID :: string
  UpdateName :: string
  UpdatePassword :: string
  UpdateOrigin :: HyperdriveConfigOrigin
  UpdateCaching :: HyperdriveConfigCaching

type_synonym ListHyperdriveConfigParams = unit

text \<open>
  Modelled from the spec: \<^verbatim>\<open>ResourceContainer\<close>, the account container, which is declared
  elsewhere in the package. This file reads its \<^verbatim>\<open>Identifier\<close> only.
\<close>

record ResourceContainer =
  Identifier :: string

subsection \<open>Zero values\<close>

definition zero_HyperdriveConfigOrigin :: HyperdriveConfigOrigin where
  "zero_HyperdriveConfigOrigin =
     \<lparr>Database = [], Host = [], Port = 0, Scheme = [], User = []\<rparr>"

definition zero_HyperdriveConfigCaching :: HyperdriveConfigCaching where
  "zero_HyperdriveConfigCaching =
     \<lparr>Disabled = None, MaxAge = 0, StaleWhileRevalidate = 0\<rparr>"

definition zero_HyperdriveConfig :: HyperdriveConfig where
  "zero_HyperdriveConfig =
     \<lparr>ID = [], Name = [], Origin = zero_HyperdriveConfigOrigin,
      Caching = zero_HyperdriveConfigCaching\<rparr>"

section \<open>Errors\<close>

text \<open>
  Modelled from the spec: \<^verbatim>\<open>ErrMissingAccountID\<close>, the missing-account-id sentinel, which is
  declared elsewhere in the package. It is a constructor beside the three sentinels that
  this file declares. \<open>RequestError e\<close> is the error value \<open>e\<close> that the API client returned,
  \<open>UnmarshalError u\<close> the error value \<open>u\<close> that \<^verbatim>\<open>json.Unmarshal\<close> returned, both as they
  are. \<open>Errorf p err\<close> is \<^verbatim>\<open>fmt.Errorf("%s: %w", p, err)\<close>: a new error that wraps \<open>err\<close>
  and whose text starts with \<open>p\<close>.
\<close>

datatype ('e, 'u) error =
    ErrMissingAccountID
  | ErrMissingHyperdriveConfigID
  | ErrMissingHyperdriveConfigName
  | ErrMissingHyperdriveConfigPassword
  | RequestError 'e
  | UnmarshalError 'u
  | Errorf string "('e, 'u) error"

text \<open>
  \<^verbatim>\<open>errors.Unwrap\<close>, and the marker of an error: the prefix an operation of this file
  has wrapped it with. The errors of the API client and of \<^verbatim>\<open>json.Unmarshal\<close> are taken as
  they come; they have no marker of this file.
\<close>

fun Unwrap :: "('e, 'u) error \<Rightarrow> ('e, 'u) error option" where
  "Unwrap (Errorf p err) = Some err"
| "Unwrap _ = None"

fun marker :: "('e, 'u) error \<Rightarrow> string option" where
  "marker (Errorf p err) = Some p"
| "marker _ = None"

section \<open>The API client and the package scope\<close>

text \<open>
  The third argument of \<^verbatim>\<open>makeRequestContext\<close> has type \<^verbatim>\<open>interface{}\<close>; this file
  passes \<^verbatim>\<open>nil\<close> or one of its two parameter structs. The methods are the constants of
  \<^verbatim>\<open>net/http\<close>.
\<close>

datatype body =
    nil
  | CreateBody CreateHyperdriveConfigParams
  | UpdateBody UpdateHyperdriveConfigParams

definition MethodGet :: string where "MethodGet = ''GET''"
definition MethodPost :: string where "MethodPost = ''POST''"
definition MethodPut :: string where "MethodPut = ''PUT''"
definition MethodDelete :: string where "MethodDelete = ''DELETE''"

record request =
  req_method :: string
  req_uri :: string
  req_params :: body

text \<open>
  What the file uses and does not declare is a field of the environment:
  \<^item> \<open>makeRequestContext\<close>, the API client (the context argument, which the file only
    hands on, is left out): response bytes or the client's error;
  \<^item> \<open>json_Unmarshal_List\<close> and \<open>json_Unmarshal_Config\<close>, \<^verbatim>\<open>json.Unmarshal\<close> at the two
    envelope types: given the bytes and the target, the error or the filled target;
  \<^item> \<open>zero_Response\<close>, the zero value of the embedded \<^verbatim>\<open>Response\<close>;
  \<^item> the package's string constants \<^verbatim>\<open>errUnmarshalError\<close> and \<^verbatim>\<open>errMakeRequestError\<close>.
\<close>

record ('e, 'u, 'r) environment =
  makeRequestContext :: "string \<Rightarrow> string \<Rightarrow> body \<Rightarrow> 'e + bytes"
  json_Unmarshal_List ::
    "bytes \<Rightarrow> 'r HyperdriveConfigListResponse \<Rightarrow> 'u + 'r HyperdriveConfigListResponse"
  json_Unmarshal_Config ::
    "bytes \<Rightarrow> 'r HyperdriveConfigResponse \<Rightarrow> 'u + 'r HyperdriveConfigResponse"
  zero_Response :: 'r
  errUnmarshalError :: string
  errMakeRequestError :: string

text \<open>
  An operation either panics (the container pointer is nil and is dereferenced) or
  returns its value and its error, \<open>None\<close> being the nil error. The third component of
  \<open>Return\<close> is not a result of the Go function: it lists the requests that the operation
  handed to the API client, in order.
\<close>

datatype ('a, 'x) outcome =
    Panic
  | Return 'a "'x option" "request list"

text \<open>
  \<open>send\<close> is the call \<^verbatim>\<open>api.makeRequestContext(ctx, method, uri, params)\<close>: what the API
  client returns, and the request as it was made.
\<close>

definition send ::
  "('e, 'u, 'r) environment \<Rightarrow> string \<Rightarrow> string \<Rightarrow> body \<Rightarrow> ('e + bytes) \<times> request list" where
  "send api m uri params =
     (makeRequestContext api m uri params,
      [\<lparr>req_method = m, req_uri = uri, req_params = params\<rparr>])"

section \<open>The five operations\<close>

definition ListHyperdriveConfigs ::
  "('e, 'u, 'r) environment \<Rightarrow> ResourceContainer option \<Rightarrow> ListHyperdriveConfigParams
     \<Rightarrow> (HyperdriveConfig slice, ('e, 'u) error) outcome" where
  "ListHyperdriveConfigs api rc params =
     (case rc of None \<Rightarrow> Panic | Some c \<Rightarrow>
      if Identifier c = [] then Return (Some []) (Some ErrMissingAccountID) []
      else
        let hResponse = \<lparr>ListResponse = zero_Response api, ListResult = None\<rparr>;
            uri = ''/accounts/'' @ Identifier c @ ''/hyperdrive/configs'';
            (r, sent) = send api MethodGet uri nil
        in (case r of
             Inl err \<Rightarrow> Return (Some []) (Some (RequestError err)) sent
           | Inr res \<Rightarrow>
               (case json_Unmarshal_List api res hResponse of
                  Inl err \<Rightarrow>
                    Return (Some [])
                      (Some (Errorf ''failed to unmarshal filters JSON data'' (UnmarshalError err)))
                      sent
                | Inr hResponse' \<Rightarrow> Return (ListResult hResponse') None sent)))"

definition CreateHyperdriveConfig ::
  "('e, 'u, 'r) environment \<Rightarrow> ResourceContainer option \<Rightarrow> CreateHyperdriveConfigParams
     \<Rightarrow> (HyperdriveConfig, ('e, 'u) error) outcome" where
  "CreateHyperdriveConfig api rc params =
     (case rc of None \<Rightarrow> Panic | Some c \<Rightarrow>
      if Identifier c = [] then Return zero_HyperdriveConfig (Some ErrMissingAccountID) []
      else if CreateName params = [] then
        Return zero_HyperdriveConfig (Some ErrMissingHyperdriveConfigName) []
      else if CreatePassword params = [] then
        Return zero_HyperdriveConfig (Some ErrMissingHyperdriveConfigPassword) []
      else
        let uri = ''/accounts/'' @ Identifier c @ ''/hyperdrive/configs'';
            (r, sent) = send api MethodPost uri (CreateBody params)
        in (case r of
             Inl err \<Rightarrow> Return zero_HyperdriveConfig (Some (RequestError err)) sent
           | Inr res \<Rightarrow>
               (case json_Unmarshal_Config api res
                       \<lparr>Response = zero_Response api, Result = zero_HyperdriveConfig\<rparr> of
                  Inl err \<Rightarrow>
                    Return zero_HyperdriveConfig
                      (Some (Errorf (errUnmarshalError api) (UnmarshalError err))) sent
                | Inr r \<Rightarrow> Return (Result r) None sent)))"

definition DeleteHyperdriveConfig ::
  "('e, 'u, 'r) environment \<Rightarrow> ResourceContainer option \<Rightarrow> string
     \<Rightarrow> (unit, ('e, 'u) error) outcome" where
  "DeleteHyperdriveConfig api rc hyperdriveID =
     (case rc of None \<Rightarrow> Panic | Some c \<Rightarrow>
      if Identifier c = [] then Return () (Some ErrMissingAccountID) []
      else if hyperdriveID = [] then Return () (Some ErrMissingHyperdriveConfigID) []
      else
        let uri = ''/accounts/'' @ Identifier c @ ''/hyperdrive/configs/'' @ hyperdriveID;
            (r, sent) = send api MethodDelete uri nil
        in (case r of
             Inl err \<Rightarrow>
               Return () (Some (Errorf (errMakeRequestError api) (RequestError err))) sent
           | Inr res \<Rightarrow> Return () None sent))"

definition GetHyperdriveConfig ::
  "('e, 'u, 'r) environment \<Rightarrow> ResourceContainer option \<Rightarrow> string
     \<Rightarrow> (HyperdriveConfig, ('e, 'u) error) outcome" where
  "GetHyperdriveConfig api rc hyperdriveID =
     (case rc of None \<Rightarrow> Panic | Some c \<Rightarrow>
      if Identifier c = [] then Return zero_HyperdriveConfig (Some ErrMissingAccountID) []
      else if hyperdriveID = [] then
        Return zero_HyperdriveConfig (Some ErrMissingHyperdriveConfigID) []
      else
        let uri = ''/accounts/'' @ Identifier c @ ''/hyperdrive/configs/'' @ hyperdriveID;
            (r, sent) = send api MethodGet uri nil
        in (case r of
             Inl err \<Rightarrow> Return zero_HyperdriveConfig (Some (RequestError err)) sent
           | Inr res \<Rightarrow>
               (case json_Unmarshal_Config api res
                       \<lparr>Response = zero_Response api, Result = zero_HyperdriveConfig\<rparr> of
                  Inl err \<Rightarrow>
                    Return zero_HyperdriveConfig
                      (Some (Errorf (errUnmarshalError api) (UnmarshalError err))) sent
                | Inr r \<Rightarrow> Return (Result r) None sent)))"

definition UpdateHyperdriveConfig ::
  "('e, 'u, 'r) environment \<Rightarrow> ResourceContainer option \<Rightarrow> UpdateHyperdriveConfigParams
     \<Rightarrow> (HyperdriveConfig, ('e, 'u) error) outcome" where
  "UpdateHyperdriveConfig api rc params =
     (case rc of None \<Rightarrow> Panic | Some c \<Rightarrow>
      if Identifier c = [] then Return zero_HyperdriveConfig (Some ErrMissingAccountID) []
      else if HyperdriveID params = [] then
        Return zero_HyperdriveConfig (Some ErrMissingHyperdriveConfigID) []
      else
        let uri = ''/accounts/'' @ Identifier c @ ''/hyperdrive/configs/'' @ HyperdriveID params;
            (r, sent) = send api MethodPut uri (UpdateBody params)
        in (case r of
             Inl err \<Rightarrow> Return zero_HyperdriveConfig (Some (RequestError err)) sent
           | Inr res \<Rightarrow>
               (case json_Unmarshal_Config api res
                       \<lparr>Response = zero_Response api, Result = zero_HyperdriveConfig\<rparr> of
                  Inl err \<Rightarrow>
                    Return zero_HyperdriveConfig
                      (Some (Errorf (errUnmarshalError api) (UnmarshalError err))) sent
                | Inr r \<Rightarrow> Return (Result r) None sent)))"

section \<open>The JSON package\<close>

text \<open>
  \<^verbatim>\<open>json\<close> is the imported package \<^verbatim>\<open>github.com/goccy/go-json\<close>, a replacement of the
  standard \<^verbatim>\<open>encoding/json\<close> with the same interface. This section is a model of its
  documented behaviour on the struct declarations above: reading a JSON text into a
  value, storing a value into a struct through the field tags, and the value a struct
  is written as.
\<close>

subsection \<open>JSON values and texts\<close>

text \<open>
  A number literal without fraction and exponent is \<open>JInt\<close>; every other number
  literal is \<open>JFloat\<close> and keeps its text. The members of an object stay in the order
  of the text, with their duplicates.
\<close>

datatype json =
    JNull
  | JBool bool
  | JInt int
  | JFloat string
  | JString string
  | JArray "json list"
  | JObject "(string \<times> json) list"

datatype token =
    LBrace | RBrace | LBracket | RBracket | Colon | Comma
  | Lit json
  | Str string

definition is_space :: "char \<Rightarrow> bool" where
  "is_space c \<longleftrightarrow> c = CHR '' '' \<or> c = CHR 0x09 \<or> c = CHR 0x0A \<or> c = CHR 0x0D"

definition is_digit :: "char \<Rightarrow> bool" where
  "is_digit c \<longleftrightarrow> 48 \<le> (of_char c :: nat) \<and> (of_char c :: nat) \<le> 57"

definition int_of_digits :: "string \<Rightarrow> int" where
  "int_of_digits ds = foldl (\<lambda>a c. 10 * a + (of_char c - 48)) 0 ds"

definition hex_digit :: "char \<Rightarrow> nat option" where
  "hex_digit c =
     (let n = of_char c :: nat in
      if 48 \<le> n \<and> n \<le> 57 then Some (n - 48)
      else if 65 \<le> n \<and> n \<le> 70 then Some (n - 55)
      else if 97 \<le> n \<and> n \<le> 102 then Some (n - 87)
      else None)"

definition hex4 :: "char \<Rightarrow> char \<Rightarrow> char \<Rightarrow> char \<Rightarrow> nat option" where
  "hex4 a b c d =
     (case (hex_digit a, hex_digit b, hex_digit c, hex_digit d) of
        (Some h3, Some h2, Some h1, Some h0) \<Rightarrow> Some (4096 * h3 + 256 * h2 + 16 * h1 + h0)
      | _ \<Rightarrow> None)"

text \<open>The UTF-8 bytes of a code point.\<close>

definition utf8 :: "nat \<Rightarrow> string" where
  "utf8 cp =
     (if cp < 0x80 then [char_of cp]
      else if cp < 0x800 then [char_of (0xC0 + cp div 64), char_of (0x80 + cp mod 64)]
      else if cp < 0x10000 then
        [char_of (0xE0 + cp div 4096), char_of (0x80 + cp div 64 mod 64),
         char_of (0x80 + cp mod 64)]
      else
        [char_of (0xF0 + cp div 262144), char_of (0x80 + cp div 4096 mod 64),
         char_of (0x80 + cp div 64 mod 64), char_of (0x80 + cp mod 64)])"

definition unescape :: "char \<Rightarrow> char option" where
  "unescape e =
     (if e = CHR 0x22 \<or> e = CHR 0x5C \<or> e = CHR ''/'' then Some e
      else if e = CHR ''b'' then Some (CHR 0x08)
      else if e = CHR ''f'' then Some (CHR 0x0C)
      else if e = CHR ''n'' then Some (CHR 0x0A)
      else if e = CHR ''r'' then Some (CHR 0x0D)
      else if e = CHR ''t'' then Some (CHR 0x09)
      else None)"

definition prepend :: "'a list \<Rightarrow> ('a list \<times> 'b) option \<Rightarrow> ('a list \<times> 'b) option" where
  "prepend xs r = map_option (\<lambda>(ys, rest). (xs @ ys, rest)) r"

text \<open>
  \<open>low_surrogate\<close> reads an escaped low surrogate \<^verbatim>\<open>\uDC00\<close> to \<^verbatim>\<open>\uDFFF\<close>,
  \<open>scan_unicode\<close> what follows \<^verbatim>\<open>\u\<close>, \<open>scan_escape\<close> what follows a backslash: the
  bytes denoted and the text behind. An escaped surrogate pair is one code point, a
  surrogate without its partner is U+FFFD.
\<close>

definition low_surrogate :: "string \<Rightarrow> (nat \<times> string) option" where
  "low_surrogate cs =
     (case cs of
        b # u # h3 # h2 # h1 # h0 # rest \<Rightarrow>
          if b = CHR 0x5C \<and> u = CHR ''u'' then
            (case hex4 h3 h2 h1 h0 of
               None \<Rightarrow> None
             | Some lo \<Rightarrow> if 0xDC00 \<le> lo \<and> lo < 0xE000 then Some (lo, rest) else None)
          else None
      | _ \<Rightarrow> None)"

definition scan_unicode :: "string \<Rightarrow> (string \<times> string) option" where
  "scan_unicode cs =
     (case cs of
        h3 # h2 # h1 # h0 # rest \<Rightarrow>
          (case hex4 h3 h2 h1 h0 of
             None \<Rightarrow> None
           | Some hi \<Rightarrow>
               if hi < 0xD800 \<or> 0xE000 \<le> hi then Some (utf8 hi, rest)
               else if 0xDC00 \<le> hi then Some (utf8 0xFFFD, rest)
               else
                 (case low_surrogate rest of
                    None \<Rightarrow> Some (utf8 0xFFFD, rest)
                  | Some (lo, rest') \<Rightarrow>
                      Some (utf8 (0x10000 + (hi - 0xD800) * 1024 + (lo - 0xDC00)), rest')))
      | _ \<Rightarrow> None)"

definition scan_escape :: "string \<Rightarrow> (string \<times> string) option" where
  "scan_escape cs =
     (case cs of
        [] \<Rightarrow> None
      | e # rest \<Rightarrow>
          if e = CHR ''u'' then scan_unicode rest
          else map_option (\<lambda>b. ([b], rest)) (unescape e))"

lemma low_surrogate_length: "low_surrogate cs = Some (lo, rest) \<Longrightarrow> length rest < length cs"
  by (auto simp: low_surrogate_def split: list.splits if_splits option.splits)

lemma scan_unicode_length: "scan_unicode cs = Some (bs, rest) \<Longrightarrow> length rest < length cs"
  by (auto simp: scan_unicode_def split: list.splits if_splits option.splits
      dest!: low_surrogate_length)

lemma scan_escape_length: "scan_escape cs = Some (bs, rest) \<Longrightarrow> length rest < length cs"
  by (auto simp: scan_escape_def split: list.splits if_splits dest!: scan_unicode_length)

text \<open>
  \<open>scan_string\<close> reads a string literal from behind its opening quote: the bytes it
  denotes and the text behind its closing quote. A control character in the literal is
  an error; bytes from \<open>0x80\<close> on are kept as they are.
\<close>

function scan_string :: "string \<Rightarrow> (string \<times> string) option" where
  "scan_string [] = None"
| "scan_string (c # cs) =
     (if c = CHR 0x22 then Some ([], cs)
      else if c = CHR 0x5C then
        (case scan_escape cs of
           None \<Rightarrow> None
         | Some (bs, rest) \<Rightarrow> prepend bs (scan_string rest))
      else if (of_char c :: nat) < 32 then None
      else prepend [c] (scan_string cs))"
  by pat_completeness auto
termination
  by (relation "measure length") (auto dest!: scan_escape_length)

text \<open>
  \<open>scan_number\<close> reads a number literal from its first character: an optional minus,
  the integer part without a leading zero, an optional fraction (\<open>scan_frac\<close>), an
  optional exponent (\<open>scan_exp\<close>). The two helpers tell whether the part was there and
  give the text behind it.
\<close>

definition scan_frac :: "string \<Rightarrow> (bool \<times> string) option" where
  "scan_frac r =
     (if take 1 r = ''.'' then
        (if takeWhile is_digit (drop 1 r) = [] then None
         else Some (True, dropWhile is_digit (drop 1 r)))
      else Some (False, r))"

definition scan_exp :: "string \<Rightarrow> (bool \<times> string) option" where
  "scan_exp r =
     (if take 1 r = ''e'' \<or> take 1 r = ''E'' then
        (let r' = (if take 1 (drop 1 r) = ''+'' \<or> take 1 (drop 1 r) = ''-'' then drop 2 r
                   else drop 1 r)
         in if takeWhile is_digit r' = [] then None else Some (True, dropWhile is_digit r'))
      else Some (False, r))"

definition scan_number :: "string \<Rightarrow> (token \<times> string) option" where
  "scan_number s =
     (let neg = (take 1 s = ''-'');
          r0 = (if neg then drop 1 s else s);
          ds = takeWhile is_digit r0
      in if ds = [] \<or> (1 < length ds \<and> hd ds = CHR ''0'') then None
         else
           (case scan_frac (dropWhile is_digit r0) of
              None \<Rightarrow> None
            | Some (has_frac, r1) \<Rightarrow>
                (case scan_exp r1 of
                   None \<Rightarrow> None
                 | Some (has_exp, r2) \<Rightarrow>
                     if has_frac \<or> has_exp then
                       Some (Lit (JFloat (take (length s - length r2) s)), r2)
                     else
                       Some (Lit (JInt ((if neg then - 1 else 1) * int_of_digits ds)), r2))))"

lemma prepend_Some: "prepend xs r = Some (s, rest) \<Longrightarrow> \<exists>ys. r = Some (ys, rest)"
  by (auto simp: prepend_def)

lemma scan_string_length: "scan_string cs = Some (s, rest) \<Longrightarrow> length rest < length cs"
proof (induction cs arbitrary: s rest rule: scan_string.induct)
  case 1
  then show ?case by simp
next
  case (2 c cs)
  show ?case
  proof (cases "c = CHR 0x22")
    case True
    with "2.prems" show ?thesis by simp
  next
    case quote: False
    show ?thesis
    proof (cases "c = CHR 0x5C")
      case True
      with quote "2.prems" obtain bs r where e: "scan_escape cs = Some (bs, r)"
        and p: "prepend bs (scan_string r) = Some (s, rest)"
        by (auto split: option.splits)
      from p obtain ys where "scan_string r = Some (ys, rest)"
        by (auto dest: prepend_Some)
      with "2.IH"(1) [OF quote True e refl] have "length rest < length r"
        by simp
      with scan_escape_length [OF e] show ?thesis by simp
    next
      case False
      with quote "2.prems" have c: "\<not> (of_char c :: nat) < 32"
        and p: "prepend [c] (scan_string cs) = Some (s, rest)"
        by (auto split: if_splits)
      from p obtain ys where "scan_string cs = Some (ys, rest)"
        by (auto dest: prepend_Some)
      with "2.IH"(2) [OF quote False c] show ?thesis by fastforce
    qed
  qed
qed

lemma scan_frac_length: "scan_frac r = Some (b, r') \<Longrightarrow> length r' \<le> length r"
  using length_dropWhile_le [of is_digit "drop 1 r"]
  by (auto simp: scan_frac_def split: if_splits)

lemma scan_exp_length: "scan_exp r = Some (b, r') \<Longrightarrow> length r' \<le> length r"
  using length_dropWhile_le [of is_digit "drop 1 r"] length_dropWhile_le [of is_digit "drop 2 r"]
  by (auto simp: scan_exp_def Let_def split: if_splits)

lemma dropWhile_length_less: "takeWhile P xs \<noteq> [] \<Longrightarrow> length (dropWhile P xs) < length xs"
  by (induction xs) (auto simp: less_Suc_eq_le length_dropWhile_le split: if_splits)

lemma scan_number_length: "scan_number s = Some (t, rest) \<Longrightarrow> length rest < length s"
proof -
  assume a: "scan_number s = Some (t, rest)"
  define r0 where "r0 = (if take 1 s = ''-'' then drop 1 s else s)"
  from a have ds: "takeWhile is_digit r0 \<noteq> []"
    unfolding scan_number_def r0_def Let_def by (auto split: if_splits)
  from a ds obtain b1 r1 b2 where f: "scan_frac (dropWhile is_digit r0) = Some (b1, r1)"
    and e: "scan_exp r1 = Some (b2, rest)"
    unfolding scan_number_def r0_def Let_def
    by (simp split: if_splits option.splits prod.splits)
  have "length r0 \<le> length s"
    by (simp add: r0_def)
  with dropWhile_length_less [OF ds] scan_frac_length [OF f] scan_exp_length [OF e]
  show ?thesis by simp
qed

text \<open>
  \<open>lex\<close> cuts a text into its tokens, skipping the white space between them.
\<close>

definition push :: "token \<Rightarrow> token list option \<Rightarrow> token list option" where
  "push t r = map_option ((#) t) r"

function lex :: "string \<Rightarrow> token list option" where
  "lex [] = Some []"
| "lex (c # cs) =
     (if is_space c then lex cs
      else if c = CHR ''{'' then push LBrace (lex cs)
      else if c = CHR ''}'' then push RBrace (lex cs)
      else if c = CHR ''['' then push LBracket (lex cs)
      else if c = CHR '']'' then push RBracket (lex cs)
      else if c = CHR '':'' then push Colon (lex cs)
      else if c = CHR '','' then push Comma (lex cs)
      else if c = CHR 0x22 then
        (case scan_string cs of
           None \<Rightarrow> None
         | Some (s, rest) \<Rightarrow> push (Str s) (lex rest))
      else if c = CHR ''-'' \<or> is_digit c then
        (case scan_number (c # cs) of
           None \<Rightarrow> None
         | Some (t, rest) \<Rightarrow> push t (lex rest))
      else if take 4 (c # cs) = ''true'' then push (Lit (JBool True)) (lex (drop 3 cs))
      else if take 5 (c # cs) = ''false'' then push (Lit (JBool False)) (lex (drop 4 cs))
      else if take 4 (c # cs) = ''null'' then push (Lit JNull) (lex (drop 3 cs))
      else None)"
  by pat_completeness auto
termination
proof (relation "measure length", goal_cases)
  case 1
  show ?case by simp
next
  case (9 c cs x s rest)
  then show ?case using scan_string_length [of cs s rest] by simp
next
  case (10 c cs x t rest)
  then show ?case using scan_number_length [of "c # cs" t rest] by simp
qed simp_all

text \<open>
  The parser runs over the tokens with the stack of the arrays and objects that are
  open: \<open>ArrayFrame acc\<close> is an array whose elements read so far are \<open>acc\<close>, last one
  first; \<open>ObjectFrame acc k\<close> an object whose members read so far are \<open>acc\<close> and whose
  next value belongs to the key \<open>k\<close>. \<open>parse_value\<close> expects a value, \<open>parse_rest v\<close>
  goes on behind the value \<open>v\<close>. Arrays and objects nest to the depth \<open>max_depth\<close> at
  most; the text holds one value and nothing else.
\<close>

datatype frame =
    ArrayFrame "json list"
  | ObjectFrame "(string \<times> json) list" string

definition max_depth :: nat where
  "max_depth = 10000"

fun parse_value :: "frame list \<Rightarrow> token list \<Rightarrow> json option"
  and parse_rest :: "json \<Rightarrow> frame list \<Rightarrow> token list \<Rightarrow> json option" where
  "parse_value st [] = None"
| "parse_value st (Lit v # ts) = parse_rest v st ts"
| "parse_value st (Str s # ts) = parse_rest (JString s) st ts"
| "parse_value st (LBracket # ts) =
     (if length st < max_depth then
        (case ts of
           RBracket # ts' \<Rightarrow> parse_rest (JArray []) st ts'
         | _ \<Rightarrow> parse_value (ArrayFrame [] # st) ts)
      else None)"
| "parse_value st (LBrace # ts) =
     (if length st < max_depth then
        (case ts of
           RBrace # ts' \<Rightarrow> parse_rest (JObject []) st ts'
         | Str k # Colon # ts' \<Rightarrow> parse_value (ObjectFrame [] k # st) ts'
         | _ \<Rightarrow> None)
      else None)"
| "parse_value st (_ # ts) = None"
| "parse_rest v [] ts = (if ts = [] then Some v else None)"
| "parse_rest v (ArrayFrame acc # st) ts =
     (case ts of
        Comma # ts' \<Rightarrow> parse_value (ArrayFrame (v # acc) # st) ts'
      | RBracket # ts' \<Rightarrow> parse_rest (JArray (rev (v # acc))) st ts'
      | _ \<Rightarrow> None)"
| "parse_rest v (ObjectFrame acc k # st) ts =
     (case ts of
        Comma # Str k' # Colon # ts' \<Rightarrow> parse_value (ObjectFrame ((k, v) # acc) k' # st) ts'
      | RBrace # ts' \<Rightarrow> parse_rest (JObject (rev ((k, v) # acc))) st ts'
      | _ \<Rightarrow> None)"

definition json_parse :: "bytes \<Rightarrow> json option" where
  "json_parse data = (case lex data of None \<Rightarrow> None | Some ts \<Rightarrow> parse_value [] ts)"

subsection \<open>Storing a JSON value into a struct\<close>

text \<open>
  \<^verbatim>\<open>Unmarshal\<close> fails with a syntax error when the text is not one JSON value, and with
  a type error when a value does not fit the field it is stored into. The rules:
  \<^item> \<^verbatim>\<open>null\<close> leaves a string, an integer or a struct as it was and makes a pointer or
    a slice nil;
  \<^item> a string field takes a JSON string, an \<^verbatim>\<open>int\<close> field an integer literal within
    64 bits, a \<^verbatim>\<open>*bool\<close> field a boolean, a struct an object, a slice an array whose
    elements are stored into fresh elements;
  \<^item> the members of an object are stored in their order, each into the field whose tag
    name is the key, letter case aside; a key that belongs to no field is skipped.
  When \<^verbatim>\<open>Unmarshal\<close> fails, what it has written to the target is not described: the
  operations do not read it.
\<close>

datatype json_error = SyntaxError | UnmarshalTypeError

definition to_lower :: "char \<Rightarrow> char" where
  "to_lower c =
     (let n = of_char c :: nat in if 65 \<le> n \<and> n \<le> 90 then char_of (n + 32) else c)"

definition fold_key :: "string \<Rightarrow> string" where
  "fold_key k = map to_lower k"

definition store :: "json_error + 'b \<Rightarrow> ('b \<Rightarrow> 'a) \<Rightarrow> json_error + 'a" where
  "store r upd = (case r of Inl e \<Rightarrow> Inl e | Inr y \<Rightarrow> Inr (upd y))"

definition decode_string :: "json \<Rightarrow> string \<Rightarrow> json_error + string" where
  "decode_string v old =
     (case v of JNull \<Rightarrow> Inr old | JString s \<Rightarrow> Inr s | _ \<Rightarrow> Inl UnmarshalTypeError)"

definition decode_int :: "json \<Rightarrow> go_int \<Rightarrow> json_error + go_int" where
  "decode_int v old =
     (case v of
        JNull \<Rightarrow> Inr old
      | JInt n \<Rightarrow>
          if - (2 ^ 63) \<le> n \<and> n < 2 ^ 63 then Inr (word_of_int n) else Inl UnmarshalTypeError
      | _ \<Rightarrow> Inl UnmarshalTypeError)"

definition decode_bool_ptr :: "json \<Rightarrow> bool option \<Rightarrow> json_error + bool option" where
  "decode_bool_ptr v old =
     (case v of JNull \<Rightarrow> Inr None | JBool b \<Rightarrow> Inr (Some b) | _ \<Rightarrow> Inl UnmarshalTypeError)"

fun decode_members ::
  "(string \<Rightarrow> json \<Rightarrow> 'a \<Rightarrow> json_error + 'a) \<Rightarrow> (string \<times> json) list \<Rightarrow> 'a \<Rightarrow> json_error + 'a"
  where
  "decode_members member [] x = Inr x"
| "decode_members member ((k, v) # ms) x =
     (case member k v x of Inl e \<Rightarrow> Inl e | Inr x' \<Rightarrow> decode_members member ms x')"

definition decode_struct ::
  "(string \<Rightarrow> json \<Rightarrow> 'a \<Rightarrow> json_error + 'a) \<Rightarrow> json \<Rightarrow> 'a \<Rightarrow> json_error + 'a" where
  "decode_struct member v old =
     (case v of
        JNull \<Rightarrow> Inr old
      | JObject ms \<Rightarrow> decode_members member ms old
      | _ \<Rightarrow> Inl UnmarshalTypeError)"

definition HyperdriveConfigOrigin_member ::
  "string \<Rightarrow> json \<Rightarrow> HyperdriveConfigOrigin \<Rightarrow> json_error + HyperdriveConfigOrigin" where
  "HyperdriveConfigOrigin_member k v x =
     (let n = fold_key k in
      if n = ''database'' then store (decode_string v (Database x)) (\<lambda>y. x\<lparr>Database := y\<rparr>)
      else if n = ''host'' then store (decode_string v (Host x)) (\<lambda>y. x\<lparr>Host := y\<rparr>)
      else if n = ''port'' then store (decode_int v (Port x)) (\<lambda>y. x\<lparr>Port := y\<rparr>)
      else if n = ''scheme'' then store (decode_string v (Scheme x)) (\<lambda>y. x\<lparr>Scheme := y\<rparr>)
      else if n = ''user'' then store (decode_string v (User x)) (\<lambda>y. x\<lparr>User := y\<rparr>)
      else Inr x)"

definition HyperdriveConfigCaching_member ::
  "string \<Rightarrow> json \<Rightarrow> HyperdriveConfigCaching \<Rightarrow> json_error + HyperdriveConfigCaching" where
  "HyperdriveConfigCaching_member k v x =
     (let n = fold_key k in
      if n = ''disabled'' then
        store (decode_bool_ptr v (Disabled x)) (\<lambda>y. x\<lparr>Disabled := y\<rparr>)
      else if n = ''max_age'' then store (decode_int v (MaxAge x)) (\<lambda>y. x\<lparr>MaxAge := y\<rparr>)
      else if n = ''stale_while_revalidate'' then
        store (decode_int v (StaleWhileRevalidate x)) (\<lambda>y. x\<lparr>StaleWhileRevalidate := y\<rparr>)
      else Inr x)"

definition decode_HyperdriveConfigOrigin ::
  "json \<Rightarrow> HyperdriveConfigOrigin \<Rightarrow> json_error + HyperdriveConfigOrigin" where
  "decode_HyperdriveConfigOrigin = decode_struct HyperdriveConfigOrigin_member"

definition decode_HyperdriveConfigCaching ::
  "json \<Rightarrow> HyperdriveConfigCaching \<Rightarrow> json_error + HyperdriveConfigCaching" where
  "decode_HyperdriveConfigCaching = decode_struct HyperdriveConfigCaching_member"

definition HyperdriveConfig_member ::
  "string \<Rightarrow> json \<Rightarrow> HyperdriveConfig \<Rightarrow> json_error + HyperdriveConfig" where
  "HyperdriveConfig_member k v x =
     (let n = fold_key k in
      if n = ''id'' then store (decode_string v (ID x)) (\<lambda>y. x\<lparr>ID := y\<rparr>)
      else if n = ''name'' then store (decode_string v (Name x)) (\<lambda>y. x\<lparr>Name := y\<rparr>)
      else if n = ''origin'' then
        store (decode_HyperdriveConfigOrigin v (Origin x)) (\<lambda>y. x\<lparr>Origin := y\<rparr>)
      else if n = ''caching'' then
        store (decode_HyperdriveConfigCaching v (Caching x)) (\<lambda>y. x\<lparr>Caching := y\<rparr>)
      else Inr x)"

definition decode_HyperdriveConfig ::
  "json \<Rightarrow> HyperdriveConfig \<Rightarrow> json_error + HyperdriveConfig" where
  "decode_HyperdriveConfig = decode_struct HyperdriveConfig_member"

fun decode_elements :: "json list \<Rightarrow> json_error + HyperdriveConfig list" where
  "decode_elements [] = Inr []"
| "decode_elements (v # vs) =
     (case decode_HyperdriveConfig v zero_HyperdriveConfig of
        Inl e \<Rightarrow> Inl e
      | Inr c \<Rightarrow> store (decode_elements vs) ((#) c))"

definition decode_HyperdriveConfig_slice ::
  "json \<Rightarrow> HyperdriveConfig slice \<Rightarrow> json_error + HyperdriveConfig slice" where
  "decode_HyperdriveConfig_slice v old =
     (case v of
        JNull \<Rightarrow> Inr None
      | JArray vs \<Rightarrow> store (decode_elements vs) Some
      | _ \<Rightarrow> Inl UnmarshalTypeError)"

text \<open>
  The fields of the embedded \<^verbatim>\<open>Response\<close> are fields of the envelope as well. Its
  declaration is the parameter \<open>R\<close>: \<open>R k v r\<close> stores the member \<open>k: v\<close> into the
  \<^verbatim>\<open>Response\<close> \<open>r\<close>, and is \<open>None\<close> when \<^verbatim>\<open>Response\<close> has no field for the key \<open>k\<close>. The
  envelope's own field \<^verbatim>\<open>result\<close> is less deeply nested and comes first for its exact
  name.
\<close>

type_synonym 'r Response_decl = "string \<Rightarrow> json \<Rightarrow> 'r \<Rightarrow> (json_error + 'r) option"

definition HyperdriveConfigListResponse_member ::
  "'r Response_decl \<Rightarrow> string \<Rightarrow> json \<Rightarrow> 'r HyperdriveConfigListResponse
     \<Rightarrow> json_error + 'r HyperdriveConfigListResponse" where
  "HyperdriveConfigListResponse_member R k v x =
     (if k = ''result'' then
        store (decode_HyperdriveConfig_slice v (ListResult x)) (\<lambda>y. x\<lparr>ListResult := y\<rparr>)
      else
        (case R k v (ListResponse x) of
           Some r \<Rightarrow> store r (\<lambda>y. x\<lparr>ListResponse := y\<rparr>)
         | None \<Rightarrow>
             if fold_key k = ''result'' then
               store (decode_HyperdriveConfig_slice v (ListResult x)) (\<lambda>y. x\<lparr>ListResult := y\<rparr>)
             else Inr x))"

definition HyperdriveConfigResponse_member ::
  "'r Response_decl \<Rightarrow> string \<Rightarrow> json \<Rightarrow> 'r HyperdriveConfigResponse
     \<Rightarrow> json_error + 'r HyperdriveConfigResponse" where
  "HyperdriveConfigResponse_member R k v x =
     (if k = ''result'' then
        store (decode_HyperdriveConfig v (Result x)) (\<lambda>y. x\<lparr>Result := y\<rparr>)
      else
        (case R k v (Response x) of
           Some r \<Rightarrow> store r (\<lambda>y. x\<lparr>Response := y\<rparr>)
         | None \<Rightarrow>
             if fold_key k = ''result'' then
               store (decode_HyperdriveConfig v (Result x)) (\<lambda>y. x\<lparr>Result := y\<rparr>)
             else Inr x))"

text \<open>\<^verbatim>\<open>json.Unmarshal(data, &x)\<close> at the two envelope types.\<close>

definition Unmarshal_HyperdriveConfigListResponse ::
  "'r Response_decl \<Rightarrow> bytes \<Rightarrow> 'r HyperdriveConfigListResponse
     \<Rightarrow> json_error + 'r HyperdriveConfigListResponse" where
  "Unmarshal_HyperdriveConfigListResponse R data x =
     (case json_parse data of
        None \<Rightarrow> Inl SyntaxError
      | Some v \<Rightarrow> decode_struct (HyperdriveConfigListResponse_member R) v x)"

definition Unmarshal_HyperdriveConfigResponse ::
  "'r Response_decl \<Rightarrow> bytes \<Rightarrow> 'r HyperdriveConfigResponse
     \<Rightarrow> json_error + 'r HyperdriveConfigResponse" where
  "Unmarshal_HyperdriveConfigResponse R data x =
     (case json_parse data of
        None \<Rightarrow> Inl SyntaxError
      | Some v \<Rightarrow> decode_struct (HyperdriveConfigResponse_member R) v x)"

subsection \<open>The JSON value of a struct\<close>

text \<open>
  A field is written under its tag name, in the order of the declaration; a field
  tagged \<^verbatim>\<open>"-"\<close> is not written. \<^verbatim>\<open>omitempty\<close> leaves out an empty string, the integer
  0 and a nil pointer; it never leaves out a struct.
\<close>

definition omitempty_string :: "string \<Rightarrow> string \<Rightarrow> (string \<times> json) list" where
  "omitempty_string k s = (if s = [] then [] else [(k, JString s)])"

definition omitempty_int :: "string \<Rightarrow> go_int \<Rightarrow> (string \<times> json) list" where
  "omitempty_int k n = (if n = 0 then [] else [(k, JInt (sint n))])"

definition omitempty_bool_ptr :: "string \<Rightarrow> bool option \<Rightarrow> (string \<times> json) list" where
  "omitempty_bool_ptr k p = (case p of None \<Rightarrow> [] | Some b \<Rightarrow> [(k, JBool b)])"

definition encode_HyperdriveConfigOrigin :: "HyperdriveConfigOrigin \<Rightarrow> json" where
  "encode_HyperdriveConfigOrigin x =
     JObject
       (omitempty_string ''database'' (Database x) @ omitempty_string ''host'' (Host x)
        @ omitempty_int ''port'' (Port x) @ omitempty_string ''scheme'' (Scheme x)
        @ omitempty_string ''user'' (User x))"

definition encode_HyperdriveConfigCaching :: "HyperdriveConfigCaching \<Rightarrow> json" where
  "encode_HyperdriveConfigCaching x =
     JObject
       (omitempty_bool_ptr ''disabled'' (Disabled x) @ omitempty_int ''max_age'' (MaxAge x)
        @ omitempty_int ''stale_while_revalidate'' (StaleWhileRevalidate x))"

definition encode_CreateHyperdriveConfigParams :: "CreateHyperdriveConfigParams \<Rightarrow> json" where
  "encode_CreateHyperdriveConfigParams x =
     JObject
       [(''name'', JString (CreateName x)), (''password'', JString (CreatePassword x)),
        (''origin'', encode_HyperdriveConfigOrigin (CreateOrigin x)),
        (''caching'', encode_HyperdriveConfigCaching (CreateCaching x))]"

definition encode_UpdateHyperdriveConfigParams :: "UpdateHyperdriveConfigParams \<Rightarrow> json" where
  "encode_UpdateHyperdriveConfigParams x =
     JObject
       [(''name'', JString (UpdateName x)), (''password'', JString (UpdatePassword x)),
        (''origin'', encode_HyperdriveConfigOrigin (UpdateOrigin x)),
        (''caching'', encode_HyperdriveConfigCaching (UpdateCaching x))]"

text \<open>The JSON value of a request body; the members and the keys of an object.\<close>

definition encode_body :: "body \<Rightarrow> json" where
  "encode_body b =
     (case b of
        nil \<Rightarrow> JNull
      | CreateBody x \<Rightarrow> encode_CreateHyperdriveConfigParams x
      | UpdateBody x \<Rightarrow> encode_UpdateHyperdriveConfigParams x)"

definition members :: "json \<Rightarrow> (string \<times> json) list" where
  "members v = (case v of JObject ms \<Rightarrow> ms | _ \<Rightarrow> [])"

definition keys :: "json \<Rightarrow> string list" where
  "keys v = map fst (members v)"

subsection \<open>The JSON text of a caching policy\<close>

text \<open>
  \<^verbatim>\<open>Marshal\<close> writes a struct as an object without white space: the members in the order
  of the fields, each as its quoted tag name, a colon and the value, with commas between
  them. A \<^verbatim>\<open>HyperdriveConfigCaching\<close> has booleans and integers only; an integer is written
  in decimal digits, with a minus sign when it is negative.
\<close>

fun digits_of :: "nat \<Rightarrow> string" where
  "digits_of n =
     (if n < 10 then [char_of (48 + n)]
      else digits_of (n div 10) @ [char_of (48 + n mod 10)])"

declare digits_of.simps [simp del]

definition write_int :: "int \<Rightarrow> string" where
  "write_int i = (if i < 0 then CHR ''-'' # digits_of (nat (- i)) else digits_of (nat i))"

definition write_bool :: "bool \<Rightarrow> string" where
  "write_bool b = (if b then ''true'' else ''false'')"

definition member_text :: "string \<Rightarrow> string \<Rightarrow> string" where
  "member_text k t = CHR 0x22 # k @ CHR 0x22 # CHR '':'' # t"

fun join_members :: "string list \<Rightarrow> string" where
  "join_members [] = []"
| "join_members [m] = m"
| "join_members (m # ms) = m @ CHR '','' # join_members ms"

definition object_text :: "string list \<Rightarrow> string" where
  "object_text ms = CHR ''{'' # join_members ms @ ''}''"

definition Marshal_HyperdriveConfigCaching :: "HyperdriveConfigCaching \<Rightarrow> bytes" where
  "Marshal_HyperdriveConfigCaching x =
     object_text
       ((case Disabled x of
           None \<Rightarrow> []
         | Some b \<Rightarrow> [member_text ''disabled'' (write_bool b)])
        @ (if MaxAge x = 0 then []
           else [member_text ''max_age'' (write_int (sint (MaxAge x)))])
        @ (if StaleWhileRevalidate x = 0 then []
           else [member_text ''stale_while_revalidate''
                   (write_int (sint (StaleWhileRevalidate x)))]))"

definition Unmarshal_HyperdriveConfigCaching ::
  "bytes \<Rightarrow> HyperdriveConfigCaching \<Rightarrow> json_error + HyperdriveConfigCaching" where
  "Unmarshal_HyperdriveConfigCaching data x =
     (case json_parse data of
        None \<Rightarrow> Inl SyntaxError
      | Some v \<Rightarrow> decode_HyperdriveConfigCaching v x)"

text \<open>
  Two notions for the proofs: the characters that can follow a member of an object, and
  the strings that are written between quotes as they are.
\<close>

definition terminator :: "char \<Rightarrow> bool" where
  "terminator c \<longleftrightarrow> c = CHR '','' \<or> c = CHR ''}''"

definition plain :: "string \<Rightarrow> bool" where
  "plain k \<longleftrightarrow> (\<forall>c \<in> set k. c \<noteq> CHR 0x22 \<and> c \<noteq> CHR 0x5C \<and> \<not> (of_char c :: nat) < 32)"

section \<open>Reading an outcome, and a test double\<close>

text \<open>The requests an operation made, and the error it returned.\<close>

fun calls :: "('a, 'x) outcome \<Rightarrow> request list" where
  "calls Panic = []"
| "calls (Return v err sent) = sent"

fun error_of :: "('a, 'x) outcome \<Rightarrow> 'x option" where
  "error_of Panic = None"
| "error_of (Return v err sent) = err"

text \<open>
  The test double: an environment around a given API client, with the JSON package of
  the section above, a \<^verbatim>\<open>Response\<close> without fields, and two texts for the package's
  constants.
\<close>

definition Response_without_fields :: "unit Response_decl" where
  "Response_without_fields k v r = None"

definition double ::
  "(string \<Rightarrow> string \<Rightarrow> body \<Rightarrow> string + bytes) \<Rightarrow> (string, json_error, unit) environment" where
  "double client =
     \<lparr>makeRequestContext = client,
      json_Unmarshal_List = Unmarshal_HyperdriveConfigListResponse Response_without_fields,
      json_Unmarshal_Config = Unmarshal_HyperdriveConfigResponse Response_without_fields,
      zero_Response = (),
      errUnmarshalError = ''errUnmarshalError'',
      errMakeRequestError = ''errMakeRequestError''\<rparr>"

text \<open>Two API clients: one that fails, one that answers every request with the same bytes.\<close>

definition refusing :: "string \<Rightarrow> string \<Rightarrow> body \<Rightarrow> string + bytes" where
  "refusing m u b = Inl ''connection refused''"

definition answering :: "bytes \<Rightarrow> string \<Rightarrow> string \<Rightarrow> body \<Rightarrow> string + bytes" where
  "answering data m u b = Inr data"

text \<open>Arguments for the instances.\<close>

definition account :: ResourceContainer where
  "account = \<lparr>Identifier = ''acct''\<rparr>"

definition no_account :: ResourceContainer where
  "no_account = \<lparr>Identifier = []\<rparr>"

definition create_params :: CreateHyperdriveConfigParams where
  "create_params =
     \<lparr>CreateName = ''db1'', CreatePassword = ''secret'',
      CreateOrigin = zero_HyperdriveConfigOrigin, CreateCaching = zero_HyperdriveConfigCaching\<rparr>"

definition update_params :: UpdateHyperdriveConfigParams where
  "update_params =
     \<lparr>HyperdriveID = ''h1'', UpdateName = ''db1'', UpdatePassword = ''secret'',
      UpdateOrigin = zero_HyperdriveConfigOrigin, UpdateCaching = zero_HyperdriveConfigCaching\<rparr>"

lemmas operations =
  ListHyperdriveConfigs_def CreateHyperdriveConfig_def GetHyperdriveConfig_def
  UpdateHyperdriveConfig_def DeleteHyperdriveConfig_def send_def

section \<open>Validation\<close>

text \<open>
  C1. When the identifier of the account container is the empty string, each of the
  five operations returns \<^verbatim>\<open>ErrMissingAccountID\<close> with the zero value and hands no
  request to the API client.
\<close>

theorem missing_account_id:
  assumes "Identifier c = []"
  shows "ListHyperdriveConfigs api (Some c) lp = Return (Some []) (Some ErrMissingAccountID) []
       \<and> CreateHyperdriveConfig api (Some c) cp
           = Return zero_HyperdriveConfig (Some ErrMissingAccountID) []
       \<and> GetHyperdriveConfig api (Some c) hid
           = Return zero_HyperdriveConfig (Some ErrMissingAccountID) []
       \<and> UpdateHyperdriveConfig api (Some c) up
           = Return zero_HyperdriveConfig (Some ErrMissingAccountID) []
       \<and> DeleteHyperdriveConfig api (Some c) hid = Return () (Some ErrMissingAccountID) []"
  using assms by (simp add: operations)

text \<open>
  An instance: the container with the empty identifier, at a client that would
  answer.
\<close>

theorem missing_account_id_witness:
  "Identifier no_account = []
   \<and> ListHyperdriveConfigs (double (answering ''{}'')) (Some no_account) ()
       = Return (Some []) (Some ErrMissingAccountID) []
   \<and> CreateHyperdriveConfig (double (answering ''{}'')) (Some no_account) create_params
       = Return zero_HyperdriveConfig (Some ErrMissingAccountID) []
   \<and> GetHyperdriveConfig (double (answering ''{}'')) (Some no_account) ''h1''
       = Return zero_HyperdriveConfig (Some ErrMissingAccountID) []
   \<and> UpdateHyperdriveConfig (double (answering ''{}'')) (Some no_account) update_params
       = Return zero_HyperdriveConfig (Some ErrMissingAccountID) []
   \<and> DeleteHyperdriveConfig (double (answering ''{}'')) (Some no_account) ''h1''
       = Return () (Some ErrMissingAccountID) []"
proof -
  have h: "Identifier no_account = []"
    by (simp add: no_account_def)
  from missing_account_id [OF h, of "double (answering ''{}'')" "()" create_params "''h1''"
      update_params] h
  show ?thesis by simp
qed

text \<open>
  C2. Create, the account identifier not empty: an empty name gives
  \<^verbatim>\<open>ErrMissingHyperdriveConfigName\<close>, whatever the password is (so also when both are
  empty); a name that is not empty with an empty password gives
  \<^verbatim>\<open>ErrMissingHyperdriveConfigPassword\<close>. No request is made.
\<close>

theorem create_validation_order:
  assumes "Identifier c \<noteq> []"
  shows "(CreateName p = [] \<longrightarrow>
            CreateHyperdriveConfig api (Some c) p
              = Return zero_HyperdriveConfig (Some ErrMissingHyperdriveConfigName) [])
       \<and> (CreateName p \<noteq> [] \<and> CreatePassword p = [] \<longrightarrow>
            CreateHyperdriveConfig api (Some c) p
              = Return zero_HyperdriveConfig (Some ErrMissingHyperdriveConfigPassword) [])"
  using assms by (simp add: operations)

text \<open>
  An instance: name and password both empty, then the password alone.
\<close>

theorem create_validation_order_witness:
  "Identifier account \<noteq> []
   \<and> CreateHyperdriveConfig (double (answering ''{}'')) (Some account)
         (create_params\<lparr>CreateName := [], CreatePassword := []\<rparr>)
       = Return zero_HyperdriveConfig (Some ErrMissingHyperdriveConfigName) []
   \<and> CreateHyperdriveConfig (double (answering ''{}'')) (Some account)
         (create_params\<lparr>CreatePassword := []\<rparr>)
       = Return zero_HyperdriveConfig (Some ErrMissingHyperdriveConfigPassword) []"
proof -
  have h: "Identifier account \<noteq> []"
    by (simp add: account_def)
  from create_validation_order [OF h, of "create_params\<lparr>CreateName := [], CreatePassword := []\<rparr>"
      "double (answering ''{}'')"]
    create_validation_order [OF h, of "create_params\<lparr>CreatePassword := []\<rparr>"
      "double (answering ''{}'')"] h
  show ?thesis by (simp add: create_params_def)
qed

text \<open>
  C3 as it is stated fails: with an empty account identifier and an empty config id,
  Get, Update and Delete return \<^verbatim>\<open>ErrMissingAccountID\<close>, the check that comes first.
\<close>

theorem missing_config_id_counterexample:
  "error_of (GetHyperdriveConfig (double refusing) (Some no_account) [])
     = Some ErrMissingAccountID
   \<and> error_of (GetHyperdriveConfig (double refusing) (Some no_account) [])
     \<noteq> Some ErrMissingHyperdriveConfigID
   \<and> error_of (UpdateHyperdriveConfig (double refusing) (Some no_account)
         (update_params\<lparr>HyperdriveID := []\<rparr>))
     \<noteq> Some ErrMissingHyperdriveConfigID
   \<and> error_of (DeleteHyperdriveConfig (double refusing) (Some no_account) [])
     \<noteq> Some ErrMissingHyperdriveConfigID"
  by (simp add: operations no_account_def)

text \<open>
  C3, amended. When the account identifier is not empty, Get, Update and Delete with
  an empty config id return \<^verbatim>\<open>ErrMissingHyperdriveConfigID\<close> and make no request.
\<close>

theorem missing_config_id:
  assumes "Identifier c \<noteq> []"
  shows "GetHyperdriveConfig api (Some c) []
           = Return zero_HyperdriveConfig (Some ErrMissingHyperdriveConfigID) []
       \<and> (HyperdriveID up = [] \<longrightarrow>
            UpdateHyperdriveConfig api (Some c) up
              = Return zero_HyperdriveConfig (Some ErrMissingHyperdriveConfigID) [])
       \<and> DeleteHyperdriveConfig api (Some c) [] = Return () (Some ErrMissingHyperdriveConfigID) []"
  using assms by (simp add: operations)

text \<open>
  An instance.
\<close>

theorem missing_config_id_witness:
  "Identifier account \<noteq> []
   \<and> GetHyperdriveConfig (double (answering ''{}'')) (Some account) []
       = Return zero_HyperdriveConfig (Some ErrMissingHyperdriveConfigID) []
   \<and> UpdateHyperdriveConfig (double (answering ''{}'')) (Some account)
         (update_params\<lparr>HyperdriveID := []\<rparr>)
       = Return zero_HyperdriveConfig (Some ErrMissingHyperdriveConfigID) []
   \<and> DeleteHyperdriveConfig (double (answering ''{}'')) (Some account) []
       = Return () (Some ErrMissingHyperdriveConfigID) []"
proof -
  have h: "Identifier account \<noteq> []"
    by (simp add: account_def)
  from missing_config_id [OF h, of "double (answering ''{}'')" "update_params\<lparr>HyperdriveID := []\<rparr>"] h
  show ?thesis by simp
qed

section \<open>Requests\<close>

text \<open>
  C7. Every operation that passes its checks makes one request, on the path
  \<^verbatim>\<open>/accounts/{account_id}/hyperdrive/configs\<close>, followed by \<^verbatim>\<open>/{config_id}\<close> for Get,
  Update and Delete and for these only: List with GET, Create with POST, Get with GET,
  Update with PUT, Delete with DELETE. Create and Update pass their parameter struct as
  the body, the other three pass \<^verbatim>\<open>nil\<close>.
\<close>

theorem request_table:
  assumes "Identifier c \<noteq> []"
  shows "calls (ListHyperdriveConfigs api (Some c) lp)
           = [\<lparr>req_method = ''GET'',
               req_uri = ''/accounts/'' @ Identifier c @ ''/hyperdrive/configs'',
               req_params = nil\<rparr>]
       \<and> (CreateName cp \<noteq> [] \<and> CreatePassword cp \<noteq> [] \<longrightarrow>
            calls (CreateHyperdriveConfig api (Some c) cp)
              = [\<lparr>req_method = ''POST'',
                  req_uri = ''/accounts/'' @ Identifier c @ ''/hyperdrive/configs'',
                  req_params = CreateBody cp\<rparr>])
       \<and> (hid \<noteq> [] \<longrightarrow>
            calls (GetHyperdriveConfig api (Some c) hid)
              = [\<lparr>req_method = ''GET'',
                  req_uri = ''/accounts/'' @ Identifier c @ ''/hyperdrive/configs/'' @ hid,
                  req_params = nil\<rparr>])
       \<and> (HyperdriveID up \<noteq> [] \<longrightarrow>
            calls (UpdateHyperdriveConfig api (Some c) up)
              = [\<lparr>req_method = ''PUT'',
                  req_uri = ''/accounts/'' @ Identifier c @ ''/hyperdrive/configs/''
                            @ HyperdriveID up,
                  req_params = UpdateBody up\<rparr>])
       \<and> (hid \<noteq> [] \<longrightarrow>
            calls (DeleteHyperdriveConfig api (Some c) hid)
              = [\<lparr>req_method = ''DELETE'',
                  req_uri = ''/accounts/'' @ Identifier c @ ''/hyperdrive/configs/'' @ hid,
                  req_params = nil\<rparr>])"
proof -
  have l: "calls (ListHyperdriveConfigs api (Some c) lp)
           = [\<lparr>req_method = ''GET'',
               req_uri = ''/accounts/'' @ Identifier c @ ''/hyperdrive/configs'',
               req_params = nil\<rparr>]"
    using assms
    by (simp add: ListHyperdriveConfigs_def send_def Let_def MethodGet_def split: sum.splits)
  have cr: "calls (CreateHyperdriveConfig api (Some c) cp)
              = [\<lparr>req_method = ''POST'',
                  req_uri = ''/accounts/'' @ Identifier c @ ''/hyperdrive/configs'',
                  req_params = CreateBody cp\<rparr>]"
    if "CreateName cp \<noteq> []" "CreatePassword cp \<noteq> []"
    using assms that
    by (simp add: CreateHyperdriveConfig_def send_def Let_def MethodPost_def split: sum.splits)
  have g: "calls (GetHyperdriveConfig api (Some c) hid)
              = [\<lparr>req_method = ''GET'',
                  req_uri = ''/accounts/'' @ Identifier c @ ''/hyperdrive/configs/'' @ hid,
                  req_params = nil\<rparr>]"
    if "hid \<noteq> []"
    using assms that
    by (simp add: GetHyperdriveConfig_def send_def Let_def MethodGet_def split: sum.splits)
  have u: "calls (UpdateHyperdriveConfig api (Some c) up)
              = [\<lparr>req_method = ''PUT'',
                  req_uri = ''/accounts/'' @ Identifier c @ ''/hyperdrive/configs/''
                            @ HyperdriveID up,
                  req_params = UpdateBody up\<rparr>]"
    if "HyperdriveID up \<noteq> []"
    using assms that
    by (simp add: UpdateHyperdriveConfig_def send_def Let_def MethodPut_def split: sum.splits)
  have d: "calls (DeleteHyperdriveConfig api (Some c) hid)
              = [\<lparr>req_method = ''DELETE'',
                  req_uri = ''/accounts/'' @ Identifier c @ ''/hyperdrive/configs/'' @ hid,
                  req_params = nil\<rparr>]"
    if "hid \<noteq> []"
    using assms that
    by (simp add: DeleteHyperdriveConfig_def send_def Let_def MethodDelete_def split: sum.splits)
  from l cr g u d show ?thesis by blast
qed

text \<open>
  An instance: the five requests for the account \<^verbatim>\<open>acct\<close> and the config \<^verbatim>\<open>h1\<close>.
\<close>

theorem request_table_witness:
  "Identifier account \<noteq> []
   \<and> calls (ListHyperdriveConfigs (double refusing) (Some account) ())
       = [\<lparr>req_method = ''GET'', req_uri = ''/accounts/acct/hyperdrive/configs'',
           req_params = nil\<rparr>]
   \<and> calls (CreateHyperdriveConfig (double refusing) (Some account) create_params)
       = [\<lparr>req_method = ''POST'', req_uri = ''/accounts/acct/hyperdrive/configs'',
           req_params = CreateBody create_params\<rparr>]
   \<and> calls (GetHyperdriveConfig (double refusing) (Some account) ''h1'')
       = [\<lparr>req_method = ''GET'', req_uri = ''/accounts/acct/hyperdrive/configs/h1'',
           req_params = nil\<rparr>]
   \<and> calls (UpdateHyperdriveConfig (double refusing) (Some account) update_params)
       = [\<lparr>req_method = ''PUT'', req_uri = ''/accounts/acct/hyperdrive/configs/h1'',
           req_params = UpdateBody update_params\<rparr>]
   \<and> calls (DeleteHyperdriveConfig (double refusing) (Some account) ''h1'')
       = [\<lparr>req_method = ''DELETE'', req_uri = ''/accounts/acct/hyperdrive/configs/h1'',
           req_params = nil\<rparr>]"
proof -
  have h: "Identifier account \<noteq> []"
    by (simp add: account_def)
  from request_table [OF h, where cp = create_params and hid = "''h1''" and up = update_params
      and api = "double refusing" and lp = "()"] h
  show ?thesis by (simp add: account_def create_params_def update_params_def)
qed

text \<open>
  C6. Update puts the config id at the end of the request path and passes its
  parameters as the body; the JSON value of that body does not depend on the field
  \<^verbatim>\<open>HyperdriveID\<close>, and its keys are \<^verbatim>\<open>name\<close>, \<^verbatim>\<open>password\<close>, \<^verbatim>\<open>origin\<close> and \<^verbatim>\<open>caching\<close>: no
  member is written for \<^verbatim>\<open>HyperdriveID\<close>.
\<close>

theorem update_id_in_path_only:
  "(Identifier c \<noteq> [] \<and> HyperdriveID up \<noteq> [] \<longrightarrow>
      calls (UpdateHyperdriveConfig api (Some c) up)
        = [\<lparr>req_method = ''PUT'',
            req_uri = ''/accounts/'' @ Identifier c @ ''/hyperdrive/configs/'' @ HyperdriveID up,
            req_params = UpdateBody up\<rparr>])
   \<and> encode_body (UpdateBody (up\<lparr>HyperdriveID := x\<rparr>)) = encode_body (UpdateBody up)
   \<and> keys (encode_body (UpdateBody up)) = [''name'', ''password'', ''origin'', ''caching'']"
  by (simp add: UpdateHyperdriveConfig_def send_def Let_def MethodPut_def encode_body_def
      encode_UpdateHyperdriveConfigParams_def keys_def members_def split: sum.splits)

text \<open>
  An instance: the request of an Update and the JSON value of its body.
\<close>

theorem update_id_in_path_only_witness:
  "Identifier account \<noteq> [] \<and> HyperdriveID update_params \<noteq> []
   \<and> calls (UpdateHyperdriveConfig (double refusing) (Some account) update_params)
       = [\<lparr>req_method = ''PUT'', req_uri = ''/accounts/acct/hyperdrive/configs/h1'',
           req_params = UpdateBody update_params\<rparr>]
   \<and> encode_body (UpdateBody update_params)
       = JObject [(''name'', JString ''db1''), (''password'', JString ''secret''),
                  (''origin'', JObject []), (''caching'', JObject [])]"
proof -
  have h: "Identifier account \<noteq> [] \<and> HyperdriveID update_params \<noteq> []"
    by (simp add: account_def update_params_def)
  have m: "encode_body (UpdateBody update_params)
       = JObject [(''name'', JString ''db1''), (''password'', JString ''secret''),
                  (''origin'', JObject []), (''caching'', JObject [])]"
    by (simp add: encode_body_def encode_UpdateHyperdriveConfigParams_def update_params_def
        encode_HyperdriveConfigOrigin_def encode_HyperdriveConfigCaching_def
        zero_HyperdriveConfigOrigin_def zero_HyperdriveConfigCaching_def
        omitempty_string_def omitempty_int_def omitempty_bool_ptr_def)
  from update_id_in_path_only [of account update_params "double refusing"] h m
  show ?thesis by (simp add: account_def update_params_def)
qed

section \<open>Failures of the API client and of decoding\<close>

text \<open>
  C10. When the API client fails with the error \<open>e\<close>, Delete returns \<open>e\<close> wrapped
  with \<^verbatim>\<open>errMakeRequestError\<close>, and List, Create, Get and Update return \<open>e\<close> itself: the
  error of Delete carries the marker, the error of the other four carries none.
\<close>

theorem transport_error_wrapping:
  assumes "Identifier c \<noteq> []"
  shows "(hid \<noteq> [] \<and>
          makeRequestContext api MethodDelete
            (''/accounts/'' @ Identifier c @ ''/hyperdrive/configs/'' @ hid) nil = Inl e \<longrightarrow>
            error_of (DeleteHyperdriveConfig api (Some c) hid)
              = Some (Errorf (errMakeRequestError api) (RequestError e)))
       \<and> (makeRequestContext api MethodGet
            (''/accounts/'' @ Identifier c @ ''/hyperdrive/configs'') nil = Inl e \<longrightarrow>
            error_of (ListHyperdriveConfigs api (Some c) lp) = Some (RequestError e))
       \<and> (CreateName cp \<noteq> [] \<and> CreatePassword cp \<noteq> [] \<and>
          makeRequestContext api MethodPost
            (''/accounts/'' @ Identifier c @ ''/hyperdrive/configs'') (CreateBody cp) = Inl e \<longrightarrow>
            error_of (CreateHyperdriveConfig api (Some c) cp) = Some (RequestError e))
       \<and> (hid \<noteq> [] \<and>
          makeRequestContext api MethodGet
            (''/accounts/'' @ Identifier c @ ''/hyperdrive/configs/'' @ hid) nil = Inl e \<longrightarrow>
            error_of (GetHyperdriveConfig api (Some c) hid) = Some (RequestError e))
       \<and> (HyperdriveID up \<noteq> [] \<and>
          makeRequestContext api MethodPut
            (''/accounts/'' @ Identifier c @ ''/hyperdrive/configs/'' @ HyperdriveID up)
            (UpdateBody up) = Inl e \<longrightarrow>
            error_of (UpdateHyperdriveConfig api (Some c) up) = Some (RequestError e))
       \<and> marker (Errorf (errMakeRequestError api) (RequestError e) :: ('e, 'u) error)
           = Some (errMakeRequestError api)
       \<and> marker (RequestError e :: ('e, 'u) error) = None"
  using assms by (simp add: operations Let_def)

text \<open>
  An instance: the five operations at the client that refuses every request.
\<close>

theorem transport_error_wrapping_witness:
  "Identifier account \<noteq> []
   \<and> error_of (DeleteHyperdriveConfig (double refusing) (Some account) ''h1'')
       = Some (Errorf ''errMakeRequestError'' (RequestError ''connection refused''))
   \<and> error_of (ListHyperdriveConfigs (double refusing) (Some account) ())
       = Some (RequestError ''connection refused'')
   \<and> error_of (CreateHyperdriveConfig (double refusing) (Some account) create_params)
       = Some (RequestError ''connection refused'')
   \<and> error_of (GetHyperdriveConfig (double refusing) (Some account) ''h1'')
       = Some (RequestError ''connection refused'')
   \<and> error_of (UpdateHyperdriveConfig (double refusing) (Some account) update_params)
       = Some (RequestError ''connection refused'')"
proof -
  have h: "Identifier account \<noteq> []"
    by (simp add: account_def)
  from transport_error_wrapping [OF h, where hid = "''h1''" and api = "double refusing"
      and e = "''connection refused''" and lp = "()" and cp = create_params
      and up = update_params] h
  show ?thesis
    by (simp add: double_def refusing_def create_params_def update_params_def)
qed

text \<open>The texts of the examples, read by the JSON package.\<close>

lemma parse_list_example:
  \<open>json_parse ''{"result": [{"id":"a1"},{"id":"a2"}]}''
     = Some (JObject [(''result'',
         JArray [JObject [(''id'', JString ''a1'')], JObject [(''id'', JString ''a2'')]])])\<close>
  by code_simp

lemma parse_config_example:
  \<open>json_parse ''{"result": {"id":"h1","name":"db1"}}''
     = Some (JObject [(''result'', JObject [(''id'', JString ''h1''), (''name'', JString ''db1'')])])\<close>
  by code_simp

lemma parse_truncated_example:
  \<open>json_parse ''{"result": {"id":"h1","na'' = None\<close>
  by code_simp


lemma fold_key_id: "fold_key ''id'' = ''id''"
  by code_simp

lemma fold_key_name: "fold_key ''name'' = ''name''"
  by code_simp

lemma Unmarshal_list_example:
  \<open>Unmarshal_HyperdriveConfigListResponse R ''{"result": [{"id":"a1"},{"id":"a2"}]}''
       \<lparr>ListResponse = z, ListResult = None\<rparr>
     = Inr \<lparr>ListResponse = z,
            ListResult = Some [zero_HyperdriveConfig\<lparr>ID := ''a1''\<rparr>,
                               zero_HyperdriveConfig\<lparr>ID := ''a2''\<rparr>]\<rparr>\<close>
  by (simp add: Unmarshal_HyperdriveConfigListResponse_def parse_list_example decode_struct_def
      HyperdriveConfigListResponse_member_def decode_HyperdriveConfig_slice_def
      decode_HyperdriveConfig_def HyperdriveConfig_member_def fold_key_id store_def
      decode_string_def)

lemma Unmarshal_config_example:
  \<open>Unmarshal_HyperdriveConfigResponse R ''{"result": {"id":"h1","name":"db1"}}''
       \<lparr>Response = z, Result = zero_HyperdriveConfig\<rparr>
     = Inr \<lparr>Response = z,
            Result = \<lparr>ID = ''h1'', Name = ''db1'', Origin = zero_HyperdriveConfigOrigin,
                      Caching = zero_HyperdriveConfigCaching\<rparr>\<rparr>\<close>
  by (simp add: Unmarshal_HyperdriveConfigResponse_def parse_config_example decode_struct_def
      HyperdriveConfigResponse_member_def
      decode_HyperdriveConfig_def HyperdriveConfig_member_def fold_key_id fold_key_name store_def
      decode_string_def zero_HyperdriveConfig_def)



text \<open>
  C8. An operation that returns an error returns the zero value with it: the empty
  list \<^verbatim>\<open>[]HyperdriveConfig{}\<close> for List, the zero \<^verbatim>\<open>HyperdriveConfig\<close> for Create, Get and
  Update.
\<close>

theorem no_partial_result:
  "(ListHyperdriveConfigs api rc lp = Return vs (Some err) sent \<longrightarrow> vs = Some [])
   \<and> (CreateHyperdriveConfig api rc cp = Return v (Some err) sent \<longrightarrow> v = zero_HyperdriveConfig)
   \<and> (GetHyperdriveConfig api rc hid = Return v (Some err) sent \<longrightarrow> v = zero_HyperdriveConfig)
   \<and> (UpdateHyperdriveConfig api rc up = Return v (Some err) sent \<longrightarrow> v = zero_HyperdriveConfig)"
proof (intro conjI impI)
  assume "ListHyperdriveConfigs api rc lp = Return vs (Some err) sent"
  then show "vs = Some []"
    by (auto simp: ListHyperdriveConfigs_def send_def Let_def split: option.splits if_splits sum.splits)
next
  assume "CreateHyperdriveConfig api rc cp = Return v (Some err) sent"
  then show "v = zero_HyperdriveConfig"
    by (auto simp: CreateHyperdriveConfig_def send_def Let_def split: option.splits if_splits sum.splits)
next
  assume "GetHyperdriveConfig api rc hid = Return v (Some err) sent"
  then show "v = zero_HyperdriveConfig"
    by (auto simp: GetHyperdriveConfig_def send_def Let_def split: option.splits if_splits sum.splits)
next
  assume "UpdateHyperdriveConfig api rc up = Return v (Some err) sent"
  then show "v = zero_HyperdriveConfig"
    by (auto simp: UpdateHyperdriveConfig_def send_def Let_def split: option.splits if_splits sum.splits)
qed

text \<open>
  An instance, one failure of each kind: the client fails, a check fails, the
  answer is cut off, the account identifier is missing.
\<close>

theorem no_partial_result_witness:
  \<open>ListHyperdriveConfigs (double refusing) (Some account) ()
     = Return (Some []) (Some (RequestError ''connection refused''))
         [\<lparr>req_method = ''GET'', req_uri = ''/accounts/acct/hyperdrive/configs'',
           req_params = nil\<rparr>]
   \<and> CreateHyperdriveConfig (double refusing) (Some account) (create_params\<lparr>CreateName := []\<rparr>)
     = Return zero_HyperdriveConfig (Some ErrMissingHyperdriveConfigName) []
   \<and> GetHyperdriveConfig (double (answering ''{"result": {"id":"h1","na'')) (Some account) ''h1''
     = Return zero_HyperdriveConfig
         (Some (Errorf ''errUnmarshalError'' (UnmarshalError SyntaxError)))
         [\<lparr>req_method = ''GET'', req_uri = ''/accounts/acct/hyperdrive/configs/h1'',
           req_params = nil\<rparr>]
   \<and> UpdateHyperdriveConfig (double refusing) (Some no_account) update_params
     = Return zero_HyperdriveConfig (Some ErrMissingAccountID) []\<close>
proof -
  have l: "\<exists>vs err sent. ListHyperdriveConfigs (double refusing) (Some account) ()
      = Return vs (Some err) sent \<and> err = RequestError ''connection refused''
        \<and> sent = [\<lparr>req_method = ''GET'', req_uri = ''/accounts/acct/hyperdrive/configs'',
           req_params = nil\<rparr>]"
    by (simp add: ListHyperdriveConfigs_def send_def double_def refusing_def account_def Let_def
        MethodGet_def)
  have c: "\<exists>v err sent. CreateHyperdriveConfig (double refusing) (Some account)
        (create_params\<lparr>CreateName := []\<rparr>) = Return v (Some err) sent
        \<and> err = ErrMissingHyperdriveConfigName \<and> sent = []"
    by (simp add: CreateHyperdriveConfig_def send_def account_def)
  have g: \<open>\<exists>v err sent. GetHyperdriveConfig (double (answering ''{"result": {"id":"h1","na''))
        (Some account) ''h1'' = Return v (Some err) sent
        \<and> err = Errorf ''errUnmarshalError'' (UnmarshalError SyntaxError)
        \<and> sent = [\<lparr>req_method = ''GET'', req_uri = ''/accounts/acct/hyperdrive/configs/h1'',
           req_params = nil\<rparr>]\<close>
    by (simp add: GetHyperdriveConfig_def send_def double_def answering_def account_def Let_def
        MethodGet_def Unmarshal_HyperdriveConfigResponse_def parse_truncated_example)
  have u: "\<exists>v err sent. UpdateHyperdriveConfig (double refusing) (Some no_account) update_params
        = Return v (Some err) sent \<and> err = ErrMissingAccountID \<and> sent = []"
    by (simp add: UpdateHyperdriveConfig_def send_def no_account_def)
  from l c g u show ?thesis
    using no_partial_result [where api = "double refusing" and rc = "Some account"
        and lp = "()" and cp = "create_params\<lparr>CreateName := []\<rparr>"]
      no_partial_result [where api = \<open>double (answering ''{"result": {"id":"h1","na'')\<close>
        and rc = "Some account" and hid = "''h1''"]
      no_partial_result [where api = "double refusing" and rc = "Some no_account"
        and up = update_params]
    by auto
qed

section \<open>Results\<close>

text \<open>
  C5. When the API client answers and \<^verbatim>\<open>json.Unmarshal\<close> fills the envelope, List,
  Create, Get and Update return the envelope's \<^verbatim>\<open>result\<close> field and no error. With the
  JSON package of this theory and any declaration of \<^verbatim>\<open>Response\<close>: on the answer
  \<^verbatim>\<open>{"result": [{"id":"a1"},{"id":"a2"}]}\<close> List returns two configs with the ids \<^verbatim>\<open>a1\<close>
  and \<^verbatim>\<open>a2\<close> in this order, all their other fields zero; on the answer
  \<^verbatim>\<open>{"result": {"id":"h1","name":"db1"}}\<close> Get returns the config with id \<^verbatim>\<open>h1\<close>, name
  \<^verbatim>\<open>db1\<close>, zero origin and zero caching.
\<close>

theorem result_unwrapped:
  assumes "Identifier c \<noteq> []"
  shows \<open>(makeRequestContext api MethodGet
            (''/accounts/'' @ Identifier c @ ''/hyperdrive/configs'') nil = Inr res
          \<and> json_Unmarshal_List api res \<lparr>ListResponse = zero_Response api, ListResult = None\<rparr>
              = Inr l \<longrightarrow>
            ListHyperdriveConfigs api (Some c) lp
              = Return (ListResult l) None
                  [\<lparr>req_method = MethodGet,
                    req_uri = ''/accounts/'' @ Identifier c @ ''/hyperdrive/configs'',
                    req_params = nil\<rparr>])
       \<and> (CreateName cp \<noteq> [] \<and> CreatePassword cp \<noteq> []
          \<and> makeRequestContext api MethodPost
              (''/accounts/'' @ Identifier c @ ''/hyperdrive/configs'') (CreateBody cp) = Inr res
          \<and> json_Unmarshal_Config api res
              \<lparr>Response = zero_Response api, Result = zero_HyperdriveConfig\<rparr> = Inr r \<longrightarrow>
            CreateHyperdriveConfig api (Some c) cp
              = Return (Result r) None
                  [\<lparr>req_method = MethodPost,
                    req_uri = ''/accounts/'' @ Identifier c @ ''/hyperdrive/configs'',
                    req_params = CreateBody cp\<rparr>])
       \<and> (hid \<noteq> []
          \<and> makeRequestContext api MethodGet
              (''/accounts/'' @ Identifier c @ ''/hyperdrive/configs/'' @ hid) nil = Inr res
          \<and> json_Unmarshal_Config api res
              \<lparr>Response = zero_Response api, Result = zero_HyperdriveConfig\<rparr> = Inr r \<longrightarrow>
            GetHyperdriveConfig api (Some c) hid
              = Return (Result r) None
                  [\<lparr>req_method = MethodGet,
                    req_uri = ''/accounts/'' @ Identifier c @ ''/hyperdrive/configs/'' @ hid,
                    req_params = nil\<rparr>])
       \<and> (HyperdriveID up \<noteq> []
          \<and> makeRequestContext api MethodPut
              (''/accounts/'' @ Identifier c @ ''/hyperdrive/configs/'' @ HyperdriveID up)
              (UpdateBody up) = Inr res
          \<and> json_Unmarshal_Config api res
              \<lparr>Response = zero_Response api, Result = zero_HyperdriveConfig\<rparr> = Inr r \<longrightarrow>
            UpdateHyperdriveConfig api (Some c) up
              = Return (Result r) None
                  [\<lparr>req_method = MethodPut,
                    req_uri = ''/accounts/'' @ Identifier c @ ''/hyperdrive/configs/''
                              @ HyperdriveID up,
                    req_params = UpdateBody up\<rparr>])
       \<and> (json_Unmarshal_List api = Unmarshal_HyperdriveConfigListResponse R
          \<and> makeRequestContext api MethodGet
              (''/accounts/'' @ Identifier c @ ''/hyperdrive/configs'') nil
              = Inr ''{"result": [{"id":"a1"},{"id":"a2"}]}'' \<longrightarrow>
            ListHyperdriveConfigs api (Some c) lp
              = Return
                  (Some [zero_HyperdriveConfig\<lparr>ID := ''a1''\<rparr>,
                         zero_HyperdriveConfig\<lparr>ID := ''a2''\<rparr>])
                  None
                  [\<lparr>req_method = MethodGet,
                    req_uri = ''/accounts/'' @ Identifier c @ ''/hyperdrive/configs'',
                    req_params = nil\<rparr>])
       \<and> (hid \<noteq> [] \<and> json_Unmarshal_Config api = Unmarshal_HyperdriveConfigResponse R
          \<and> makeRequestContext api MethodGet
              (''/accounts/'' @ Identifier c @ ''/hyperdrive/configs/'' @ hid) nil
              = Inr ''{"result": {"id":"h1","name":"db1"}}'' \<longrightarrow>
            GetHyperdriveConfig api (Some c) hid
              = Return
                  \<lparr>ID = ''h1'', Name = ''db1'', Origin = zero_HyperdriveConfigOrigin,
                    Caching = zero_HyperdriveConfigCaching\<rparr>
                  None
                  [\<lparr>req_method = MethodGet,
                    req_uri = ''/accounts/'' @ Identifier c @ ''/hyperdrive/configs/'' @ hid,
                    req_params = nil\<rparr>])\<close>
  using assms
  by (simp add: operations Let_def Unmarshal_list_example Unmarshal_config_example)

text \<open>
  An instance: the two answers of the claim at the test double.
\<close>

theorem result_unwrapped_witness:
  \<open>Identifier account \<noteq> []
   \<and> ListHyperdriveConfigs (double (answering ''{"result": [{"id":"a1"},{"id":"a2"}]}''))
         (Some account) ()
       = Return
           (Some [zero_HyperdriveConfig\<lparr>ID := ''a1''\<rparr>, zero_HyperdriveConfig\<lparr>ID := ''a2''\<rparr>])
           None
           [\<lparr>req_method = ''GET'', req_uri = ''/accounts/acct/hyperdrive/configs'',
             req_params = nil\<rparr>]
   \<and> GetHyperdriveConfig (double (answering ''{"result": {"id":"h1","name":"db1"}}''))
         (Some account) ''h1''
       = Return
           \<lparr>ID = ''h1'', Name = ''db1'', Origin = zero_HyperdriveConfigOrigin,
             Caching = zero_HyperdriveConfigCaching\<rparr>
           None
           [\<lparr>req_method = ''GET'', req_uri = ''/accounts/acct/hyperdrive/configs/h1'',
             req_params = nil\<rparr>]
   \<and> CreateHyperdriveConfig (double (answering ''{"result": {"id":"h1","name":"db1"}}''))
         (Some account) create_params
       = Return
           \<lparr>ID = ''h1'', Name = ''db1'', Origin = zero_HyperdriveConfigOrigin,
             Caching = zero_HyperdriveConfigCaching\<rparr>
           None
           [\<lparr>req_method = ''POST'', req_uri = ''/accounts/acct/hyperdrive/configs'',
             req_params = CreateBody create_params\<rparr>]
   \<and> UpdateHyperdriveConfig (double (answering ''{"result": {"id":"h1","name":"db1"}}''))
         (Some account) update_params
       = Return
           \<lparr>ID = ''h1'', Name = ''db1'', Origin = zero_HyperdriveConfigOrigin,
             Caching = zero_HyperdriveConfigCaching\<rparr>
           None
           [\<lparr>req_method = ''PUT'', req_uri = ''/accounts/acct/hyperdrive/configs/h1'',
             req_params = UpdateBody update_params\<rparr>]\<close>
proof -
  have h: "Identifier account \<noteq> []"
    by (simp add: account_def)
  note t = result_unwrapped [OF h, where R = Response_without_fields and lp = "()"
      and hid = "''h1''" and cp = create_params and up = update_params and res = \<open>''{"result": {"id":"h1","name":"db1"}}''\<close>]
  from t [where api = \<open>double (answering ''{"result": [{"id":"a1"},{"id":"a2"}]}'')\<close>]
    t [where api = \<open>double (answering ''{"result": {"id":"h1","name":"db1"}}'')\<close>] h
  show ?thesis
    by (simp add: double_def answering_def account_def create_params_def update_params_def
        Unmarshal_config_example MethodGet_def MethodPost_def MethodPut_def)
qed

section \<open>The caching policy\<close>

lemma fold_key_caching:
  "fold_key ''disabled'' = ''disabled''"
  "fold_key ''max_age'' = ''max_age''"
  "fold_key ''stale_while_revalidate'' = ''stale_while_revalidate''"
  by code_simp+

lemma decode_int_sint: "decode_int (JInt (sint (n :: go_int))) old = Inr n"
proof -
  have "- (2 ^ 63) \<le> sint n" "sint n < 2 ^ 63"
    using sint_ge [of n] sint_lt [of n] by simp_all
  then show ?thesis by (simp add: decode_int_def)
qed

lemma decode_disabled:
  "decode_members HyperdriveConfigCaching_member (omitempty_bool_ptr ''disabled'' p @ ms) x
     = decode_members HyperdriveConfigCaching_member ms (x\<lparr>Disabled := (case p of None \<Rightarrow> Disabled x | Some b \<Rightarrow> Some b)\<rparr>)"
  by (cases p)
    (simp_all add: omitempty_bool_ptr_def HyperdriveConfigCaching_member_def fold_key_caching
      store_def decode_bool_ptr_def)

lemma decode_max_age:
  "decode_members HyperdriveConfigCaching_member (omitempty_int ''max_age'' n @ ms) x
     = decode_members HyperdriveConfigCaching_member ms (if n = 0 then x else x\<lparr>MaxAge := n\<rparr>)"
  by (simp add: omitempty_int_def HyperdriveConfigCaching_member_def fold_key_caching
      store_def decode_int_sint)

lemma decode_stale_while_revalidate:
  "decode_members HyperdriveConfigCaching_member (omitempty_int ''stale_while_revalidate'' n @ ms) x
     = decode_members HyperdriveConfigCaching_member ms
         (if n = 0 then x else x\<lparr>StaleWhileRevalidate := n\<rparr>)"
  by (simp add: omitempty_int_def HyperdriveConfigCaching_member_def fold_key_caching
      store_def decode_int_sint)

text \<open>The JSON package reads the text of a caching policy as the JSON value of the policy.\<close>

lemma of_char_digit: "d < 10 \<Longrightarrow> (of_char (char_of (48 + d :: nat)) :: nat) = 48 + d"
  by (simp add: of_char_of)

lemma of_char_digit_int: "d < 10 \<Longrightarrow> (of_char (char_of (48 + d :: nat)) :: int) = 48 + int d"
proof -
  assume "d < 10"
  then have "(of_char (char_of (48 + d :: nat)) :: nat) = 48 + d"
    by (rule of_char_digit)
  then have "int (of_char (char_of (48 + d :: nat))) = int (48 + d)"
    by (rule arg_cong)
  then show ?thesis
    by (simp only: of_nat_of_char of_nat_add of_nat_numeral)
qed

lemma is_digit_char_of: "d < 10 \<Longrightarrow> is_digit (char_of (48 + d :: nat))"
  by (simp add: is_digit_def of_char_digit)

lemma digits_of_all: "\<forall>c \<in> set (digits_of n). is_digit c"
  by (induction n rule: digits_of.induct) (subst digits_of.simps, auto simp: is_digit_char_of)

lemma digits_of_not_Nil: "digits_of n \<noteq> []"
  by (subst digits_of.simps) simp

lemma int_of_digits_append:
  "int_of_digits (xs @ [c]) = 10 * int_of_digits xs + (of_char c - 48)"
  by (simp add: int_of_digits_def)

lemma int_of_digits_digits_of: "int_of_digits (digits_of n) = int n"
proof (induction n rule: digits_of.induct)
  case (1 n)
  show ?case
  proof (cases "n < 10")
    case True
    then show ?thesis
      by (subst digits_of.simps) (simp add: int_of_digits_def of_char_digit_int)
  next
    case False
    have "n mod 10 < 10" by simp
    then have m: "(of_char (char_of (48 + n mod 10) :: char) :: int) = 48 + int (n mod 10)"
      by (rule of_char_digit_int)
    from False 1 show ?thesis
      by (subst digits_of.simps) (simp add: int_of_digits_append m zmod_int zdiv_int)
  qed
qed

lemma char_of_digit_not_zero: "0 < d \<Longrightarrow> d < 10 \<Longrightarrow> char_of (48 + d :: nat) \<noteq> CHR ''0''"
proof
  assume "0 < d" "d < 10" and e: "char_of (48 + d :: nat) = CHR ''0''"
  from \<open>d < 10\<close> have "(of_char (char_of (48 + d :: nat)) :: nat) = 48 + d"
    by (rule of_char_digit)
  with e have "(of_char (CHR ''0'') :: nat) = 48 + d" by simp
  with \<open>0 < d\<close> show False by simp
qed

lemma hd_digits_of: "0 < n \<Longrightarrow> hd (digits_of n) \<noteq> CHR ''0''"
proof (induction n rule: digits_of.induct)
  case (1 n)
  show ?case
  proof (cases "n < 10")
    case True
    with 1(2) show ?thesis
      by (subst digits_of.simps) (simp add: char_of_digit_not_zero)
  next
    case False
    then have "0 < n div 10" by simp
    with 1(1) False have "hd (digits_of (n div 10)) \<noteq> CHR ''0''" by simp
    with False show ?thesis
      by (subst digits_of.simps) (simp add: digits_of_not_Nil)
  qed
qed

lemma terminator_simps:
  "terminator c \<Longrightarrow> \<not> is_digit c"
  "terminator c \<Longrightarrow> c \<noteq> CHR ''.''"
  "terminator c \<Longrightarrow> c \<noteq> CHR ''e''"
  "terminator c \<Longrightarrow> c \<noteq> CHR ''E''"
  by (auto simp: terminator_def is_digit_def)

lemma scan_digits_of:
  assumes "terminator c"
  shows "takeWhile is_digit (digits_of n @ c # rest) = digits_of n"
    and "dropWhile is_digit (digits_of n @ c # rest) = c # rest"
  using assms digits_of_all [of n] by (simp_all add: terminator_simps)

lemma leading_zero_digits_of: "\<not> (1 < length (digits_of n) \<and> hd (digits_of n) = CHR ''0'')"
proof (cases "n = 0")
  case True
  then show ?thesis by (subst digits_of.simps) simp
next
  case False
  then show ?thesis using hd_digits_of [of n] by simp
qed

lemma hd_digits_of_not_minus: "take 1 (digits_of n @ xs) \<noteq> ''-''"
proof -
  obtain d ds where e: "digits_of n = d # ds"
    using digits_of_not_Nil [of n] by (cases "digits_of n") auto
  with digits_of_all [of n] have "is_digit d" by simp
  then have "d \<noteq> CHR ''-''" by (auto simp: is_digit_def)
  with e show ?thesis by simp
qed

lemma scan_frac_terminator: "terminator c \<Longrightarrow> scan_frac (c # rest) = Some (False, c # rest)"
  by (simp add: scan_frac_def terminator_simps)

lemma scan_exp_terminator: "terminator c \<Longrightarrow> scan_exp (c # rest) = Some (False, c # rest)"
  by (simp add: scan_exp_def terminator_simps)

lemma scan_number_digits_of:
  assumes "terminator c"
  shows "scan_number (digits_of n @ c # rest) = Some (Lit (JInt (int n)), c # rest)"
proof -
  have z: "(1 < length (digits_of n) \<and> hd (digits_of n) = CHR ''0'') = False"
    using leading_zero_digits_of [of n] by simp
  have m: "(take 1 (digits_of n @ c # rest) = ''-'') = False"
    using hd_digits_of_not_minus [of n "c # rest"] by simp
  show ?thesis
    unfolding scan_number_def Let_def m if_False scan_digits_of [OF assms] z
      scan_frac_terminator [OF assms] scan_exp_terminator [OF assms]
    by (simp add: digits_of_not_Nil int_of_digits_digits_of scan_exp_terminator [OF assms])
qed

lemma scan_number_minus_digits_of:
  assumes "terminator c"
  shows "scan_number (CHR ''-'' # digits_of n @ c # rest) = Some (Lit (JInt (- int n)), c # rest)"
proof -
  have z: "(1 < length (digits_of n) \<and> hd (digits_of n) = CHR ''0'') = False"
    using leading_zero_digits_of [of n] by simp
  have m: "(take 1 (CHR ''-'' # digits_of n @ c # rest) = ''-'') = True"
    by simp
  have d: "drop 1 (CHR ''-'' # digits_of n @ c # rest) = digits_of n @ c # rest"
    by simp
  show ?thesis
    unfolding scan_number_def Let_def m if_True d scan_digits_of [OF assms] z
      scan_frac_terminator [OF assms] scan_exp_terminator [OF assms]
    by (simp add: digits_of_not_Nil int_of_digits_digits_of scan_exp_terminator [OF assms])
qed

lemma scan_number_write_int:
  assumes "terminator c"
  shows "scan_number (write_int i @ c # rest) = Some (Lit (JInt i), c # rest)"
  using scan_number_digits_of [OF assms, of "nat i" rest]
    scan_number_minus_digits_of [OF assms, of "nat (- i)" rest]
  by (simp add: write_int_def)

lemma lex_number:
  assumes "scan_number (c # cs) = Some (t, rest)" and "c = CHR ''-'' \<or> is_digit c"
  shows "lex (c # cs) = push t (lex rest)"
proof -
  from assms(2) have "\<not> is_space c" "c \<noteq> CHR ''{''" "c \<noteq> CHR ''}''" "c \<noteq> CHR ''[''"
    "c \<noteq> CHR '']''" "c \<noteq> CHR '':''" "c \<noteq> CHR '',''" "c \<noteq> CHR 0x22"
    by (auto simp: is_digit_def is_space_def)
  with assms show ?thesis by simp
qed

lemma lex_write_int:
  assumes "terminator c"
  shows "lex (write_int i @ c # rest) = push (Lit (JInt i)) (lex (c # rest))"
proof -
  obtain d ds where e: "write_int i = d # ds" and d: "d = CHR ''-'' \<or> is_digit d"
  proof (cases "i < 0")
    case True
    then show ?thesis using that by (simp add: write_int_def)
  next
    case False
    obtain d ds where "digits_of (nat i) = d # ds"
      using digits_of_not_Nil [of "nat i"] by (cases "digits_of (nat i)") auto
    with digits_of_all [of "nat i"] False show ?thesis
      using that by (simp add: write_int_def)
  qed
  from scan_number_write_int [OF assms, of i rest] e
  have "scan_number (d # ds @ c # rest) = Some (Lit (JInt i), c # rest)" by simp
  from lex_number [OF this d] e show ?thesis by simp
qed

lemma scan_string_plain: "plain k \<Longrightarrow> scan_string (k @ CHR 0x22 # rest) = Some (k, rest)"
  by (induction k) (simp_all add: plain_def prepend_def)

lemma lex_key:
  assumes "plain k"
  shows "lex (CHR 0x22 # k @ CHR 0x22 # CHR '':'' # rest) = push (Str k) (push Colon (lex rest))"
  by (simp add: is_space_def scan_string_plain [OF assms])

lemma lex_member_int:
  assumes "plain k" and "terminator c"
  shows "lex (member_text k (write_int i) @ c # rest)
           = push (Str k) (push Colon (push (Lit (JInt i)) (lex (c # rest))))"
  unfolding member_text_def using lex_key [OF assms(1), of "write_int i @ c # rest"]
  by (simp add: lex_write_int [OF assms(2)])

lemma lex_true: "lex (''true'' @ rest) = push (Lit (JBool True)) (lex rest)"
  by (simp add: is_space_def is_digit_def)

lemma lex_false: "lex (''false'' @ rest) = push (Lit (JBool False)) (lex rest)"
  by (simp add: is_space_def is_digit_def)

lemma lex_member_bool:
  assumes "plain k"
  shows "lex (member_text k (write_bool b) @ rest)
           = push (Str k) (push Colon (push (Lit (JBool b)) (lex rest)))"
proof (cases b)
  case True
  with lex_key [OF assms, of "''true'' @ rest"] lex_true [of rest] show ?thesis
    by (simp add: member_text_def write_bool_def)
next
  case False
  with lex_key [OF assms, of "''false'' @ rest"] lex_false [of rest] show ?thesis
    by (simp add: member_text_def write_bool_def)
qed

lemma plain_keys:
  "plain ''disabled''" "plain ''max_age''" "plain ''stale_while_revalidate''"
  by (simp_all add: plain_def)

lemma lex_close: "lex ''}'' = Some [RBrace]"
  by (simp add: is_space_def push_def)

lemma lex_comma: "lex (CHR '','' # rest) = push Comma (lex rest)"
  by (simp add: is_space_def)

lemma lex_open: "lex (CHR ''{'' # rest) = push LBrace (lex rest)"
  by (simp add: is_space_def)

lemma terminators: "terminator (CHR '','')" "terminator (CHR ''}'')"
  by (simp_all add: terminator_def)

lemma parse_Marshal_HyperdriveConfigCaching:
  "json_parse (Marshal_HyperdriveConfigCaching x) = Some (encode_HyperdriveConfigCaching x)"
proof -
  note lexing = lex_open lex_close lex_comma lex_member_bool [OF plain_keys(1)]
    lex_member_int [OF plain_keys(2) terminators(1)] lex_member_int [OF plain_keys(2) terminators(2)]
    lex_member_int [OF plain_keys(3) terminators(2)] push_def
  have l: "lex (Marshal_HyperdriveConfigCaching x)
    = Some (LBrace #
        (case Disabled x of None \<Rightarrow> []
         | Some b \<Rightarrow> [Str ''disabled'', Colon, Lit (JBool b)]
             @ (if MaxAge x = 0 \<and> StaleWhileRevalidate x = 0 then [] else [Comma]))
        @ (if MaxAge x = 0 then []
           else [Str ''max_age'', Colon, Lit (JInt (sint (MaxAge x)))]
             @ (if StaleWhileRevalidate x = 0 then [] else [Comma]))
        @ (if StaleWhileRevalidate x = 0 then []
           else [Str ''stale_while_revalidate'', Colon,
                 Lit (JInt (sint (StaleWhileRevalidate x)))])
        @ [RBrace])"
    unfolding Marshal_HyperdriveConfigCaching_def object_text_def
    by (cases "Disabled x"; cases "MaxAge x = 0"; cases "StaleWhileRevalidate x = 0")
      (simp_all add: lexing is_space_def)
  show ?thesis
    unfolding json_parse_def l encode_HyperdriveConfigCaching_def
    by (cases "Disabled x"; cases "MaxAge x = 0"; cases "StaleWhileRevalidate x = 0")
      (simp_all add: max_depth_def omitempty_bool_ptr_def omitempty_int_def)
qed

text \<open>
  C9. Serializing a \<^verbatim>\<open>HyperdriveConfigCaching\<close> and deserializing the text into a zero
  \<^verbatim>\<open>HyperdriveConfigCaching\<close> gives the value back, so \<^verbatim>\<open>Disabled\<close> comes back nil, false or
  true as it was. The text is read as the JSON value of the struct, in which the member
  \<^verbatim>\<open>disabled\<close> is absent for the nil pointer, \<^verbatim>\<open>false\<close> for a pointer to false and \<^verbatim>\<open>true\<close>
  for a pointer to true.
\<close>

theorem caching_roundtrip:
  "Unmarshal_HyperdriveConfigCaching (Marshal_HyperdriveConfigCaching x)
       zero_HyperdriveConfigCaching = Inr x
   \<and> json_parse (Marshal_HyperdriveConfigCaching x) = Some (encode_HyperdriveConfigCaching x)
   \<and> map_of (members (encode_HyperdriveConfigCaching x)) ''disabled''
       = map_option JBool (Disabled x)"
proof (intro conjI)
  have "decode_members HyperdriveConfigCaching_member
          (omitempty_bool_ptr ''disabled'' (Disabled x) @ omitempty_int ''max_age'' (MaxAge x)
           @ omitempty_int ''stale_while_revalidate'' (StaleWhileRevalidate x) @ [])
          zero_HyperdriveConfigCaching = Inr x"
    unfolding decode_disabled decode_max_age decode_stale_while_revalidate
    by (cases x; cases "Disabled x") (auto simp: zero_HyperdriveConfigCaching_def)
  then have "decode_HyperdriveConfigCaching (encode_HyperdriveConfigCaching x)
      zero_HyperdriveConfigCaching = Inr x"
    by (simp add: decode_HyperdriveConfigCaching_def encode_HyperdriveConfigCaching_def
        decode_struct_def)
  then show "Unmarshal_HyperdriveConfigCaching (Marshal_HyperdriveConfigCaching x)
       zero_HyperdriveConfigCaching = Inr x"
    by (simp add: Unmarshal_HyperdriveConfigCaching_def parse_Marshal_HyperdriveConfigCaching)
  show "json_parse (Marshal_HyperdriveConfigCaching x) = Some (encode_HyperdriveConfigCaching x)"
    by (rule parse_Marshal_HyperdriveConfigCaching)
  show "map_of (members (encode_HyperdriveConfigCaching x)) ''disabled''
       = map_option JBool (Disabled x)"
    by (cases "Disabled x")
      (simp_all add: members_def encode_HyperdriveConfigCaching_def omitempty_bool_ptr_def
        omitempty_int_def)
qed

end
